theory Spec2Isabelle
  imports Complex_Main "HOL-Library.AList"
begin

section \<open>JavaScript values used by the tracker\<close>

text \<open>
  A JavaScript number is an IEEE double. The finite ones are read as the real they
  denote (rounding is not modelled); the three special values that the code can produce
  by a division are kept apart, because \<open>||\<close> and JSON treat them differently.
\<close>

datatype number = Num real | NaN | Infinity | NegInfinity

text \<open>\<open>a / b\<close> on finite operands: a zero divisor gives \<open>NaN\<close> or an infinity.\<close>

definition js_div :: "real \<Rightarrow> real \<Rightarrow> number" where
  "js_div a b =
     (if b = 0 then (if a = 0 then NaN else if 0 < a then Infinity else NegInfinity)
      else Num (a / b))"

text \<open>Truthiness of a number: \<open>0\<close> and \<open>NaN\<close> are falsy.\<close>

fun truthy :: "number \<Rightarrow> bool" where
  "truthy (Num r) = (if r = 0 then False else True)"
| "truthy NaN = False"
| "truthy Infinity = True"
| "truthy NegInfinity = True"

text \<open>
  \<open>v || 0\<close> where \<open>v\<close> is a property read: \<open>None\<close> is \<open>undefined\<close> (the property
  does not exist on the receiver).
\<close>

fun or_0 :: "number option \<Rightarrow> number" where
  "or_0 None = Num 0"
| "or_0 (Some n) = (if truthy n then n else Num 0)"

text \<open>\<open>a + b\<close> on numbers: \<open>NaN\<close> spreads, opposite infinities give \<open>NaN\<close>.\<close>

fun js_add :: "number \<Rightarrow> number \<Rightarrow> number" where
  "js_add (Num a) (Num b) = Num (a + b)"
| "js_add NaN b = NaN"
| "js_add a NaN = NaN"
| "js_add Infinity NegInfinity = NaN"
| "js_add NegInfinity Infinity = NaN"
| "js_add Infinity b = Infinity"
| "js_add NegInfinity b = NegInfinity"
| "js_add (Num a) Infinity = Infinity"
| "js_add (Num a) NegInfinity = NegInfinity"

text \<open>
  \<open>getKTPKeystrokeDynamics\<close> and \<open>getMouseMovementEntropy\<close> return either the number
  \<open>0\<close> or an object; reading a property of the number \<open>0\<close> gives \<open>undefined\<close>.
\<close>

datatype 'a or_zero = Zero | Obj 'a

fun get_prop :: "('a \<Rightarrow> 'b) \<Rightarrow> 'a or_zero \<Rightarrow> 'b option" where
  "get_prop f Zero = None"
| "get_prop f (Obj a) = Some (f a)"

section \<open>The recorder: class BehaviorTracker\<close>

text \<open>Timestamps are readings of \<open>Date.now()\<close>: whole milliseconds.\<close>

record keystroke =
  k_fieldId :: string
  k_eventType :: string
  k_timestamp :: int
  k_value :: string
  k_length :: nat

record position =
  p_x :: real
  p_y :: real
  p_timestamp :: int

record BehaviorTracker =
  sessionStartTime :: int
  ktpKeystrokeData :: "keystroke list"
  fieldEditCounts :: "(string \<times> number) list"
  mousePositions :: "position list"
  seatHoverStartTime :: "int option"
  seatHesitationTime :: int
  totalClicks :: nat
  lastMousePosition :: "real \<times> real"

text \<open>The constructor, at clock reading \<open>now\<close>.\<close>

definition constructor :: "int \<Rightarrow> BehaviorTracker" where
  "constructor now =
     \<lparr> sessionStartTime = now, ktpKeystrokeData = [], fieldEditCounts = [],
       mousePositions = [], seatHoverStartTime = None, seatHesitationTime = 0,
       totalClicks = 0, lastMousePosition = (0, 0) \<rparr>"

definition getSessionTime :: "BehaviorTracker \<Rightarrow> int \<Rightarrow> int" where
  "getSessionTime t now = now - sessionStartTime t"

subsection \<open>Pointer samples\<close>

text \<open>\<open>push\<close>, then one \<open>shift\<close> when more than 100 samples are held.\<close>

definition trackMouseMovement :: "BehaviorTracker \<Rightarrow> real \<Rightarrow> real \<Rightarrow> int \<Rightarrow> BehaviorTracker" where
  "trackMouseMovement t x y now =
     (let pushed = mousePositions t @ [\<lparr> p_x = x, p_y = y, p_timestamp = now \<rparr>]
      in t \<lparr> mousePositions := (if length pushed > 100 then tl pushed else pushed) \<rparr>)"

text \<open>A run of \<open>trackMouseMovement\<close> calls, each with its arguments and clock reading.\<close>

fun trackMouseMovements :: "BehaviorTracker \<Rightarrow> (real \<times> real \<times> int) list \<Rightarrow> BehaviorTracker" where
  "trackMouseMovements t [] = t"
| "trackMouseMovements t ((x, y, now) # calls) = trackMouseMovements (trackMouseMovement t x y now) calls"

text \<open>The object that a call pushes.\<close>

definition sample :: "real \<times> real \<times> int \<Rightarrow> position" where
  "sample c = (case c of (x, y, now) \<Rightarrow> \<lparr> p_x = x, p_y = y, p_timestamp = now \<rparr>)"

subsection \<open>Keystrokes of the KTP field\<close>

definition trackKTPKeystroke :: "BehaviorTracker \<Rightarrow> string \<Rightarrow> string \<Rightarrow> string \<Rightarrow> int \<Rightarrow> BehaviorTracker" where
  "trackKTPKeystroke t fieldId eventType v now =
     t \<lparr> ktpKeystrokeData := ktpKeystrokeData t @
           [\<lparr> k_fieldId = fieldId, k_eventType = eventType, k_timestamp = now,
              k_value = v, k_length = length v \<rparr>] \<rparr>"

record ktp_dynamics =
  averageInterval :: real
  variance :: real
  totalTime :: int
  pasteDetected :: bool

text \<open>
  The loop \<open>for (i = 1; i < keydownEvents.length; i++)\<close> that pushes
  \<open>keydownEvents[i].timestamp - keydownEvents[i - 1].timestamp\<close>.
\<close>

definition intervals_of :: "keystroke list \<Rightarrow> int list" where
  "intervals_of keydownEvents =
     map (\<lambda>i. k_timestamp (keydownEvents ! i) - k_timestamp (keydownEvents ! (i - 1)))
       [1 ..< length keydownEvents]"

text \<open>
  Both guards return the number \<open>0\<close> before anything else is computed. Past them
  there is at least one interval, so the two divisions by \<open>intervals.length\<close> are
  divisions of finite numbers by a positive one. \<open>reduce\<close> with an initial value is a
  left fold.
\<close>

definition getKTPKeystrokeDynamics :: "BehaviorTracker \<Rightarrow> ktp_dynamics or_zero" where
  "getKTPKeystrokeDynamics t =
     (if length (ktpKeystrokeData t) < 2 then Zero
      else
        let keydownEvents = filter (\<lambda>e. k_eventType e = ''keydown'') (ktpKeystrokeData t)
        in if length keydownEvents < 2 then Zero
           else
             let intervals = intervals_of keydownEvents;
                 avgInterval = real_of_int (foldl (\<lambda>a b. a + b) 0 intervals) / real (length intervals);
                 var = foldl (\<lambda>sum val. sum + (real_of_int val - avgInterval) ^ 2) 0 intervals
                         / real (length intervals)
             in Obj \<lparr> averageInterval = avgInterval,
                      variance = var,
                      totalTime = k_timestamp (keydownEvents ! (length keydownEvents - 1))
                                    - k_timestamp (keydownEvents ! 0),
                      pasteDetected = list_ex (\<lambda>e. k_eventType e = ''paste'') (ktpKeystrokeData t) \<rparr>)"

subsection \<open>Field edits\<close>

text \<open>
  \<open>fieldEditCounts\<close> is a plain object \<open>{}\<close> used as a dictionary: the list holds
  its own properties in creation order. A read of \<open>this.fieldEditCounts[fieldId]\<close> that
  finds no own property falls through to \<open>Object.prototype\<close>, whose properties are the
  functions named below and the accessor \<open>__proto__\<close>.
\<close>

definition object_prototype_functions :: "string list" where
  "object_prototype_functions =
     [''constructor'', ''__defineGetter__'', ''__defineSetter__'', ''hasOwnProperty'',
      ''__lookupGetter__'', ''__lookupSetter__'', ''isPrototypeOf'', ''propertyIsEnumerable'',
      ''toString'', ''valueOf'', ''toLocaleString'']"

text \<open>
  \<open>trackFieldEdit\<close>. An own counter that is falsy (\<open>0\<close> or \<open>NaN\<close>) and a name that
  is found nowhere are first set to \<open>0\<close>, then \<open>++\<close> adds one. For an inherited
  function the guard sees a truthy value and sets nothing; \<open>++\<close> converts the function
  to \<open>NaN\<close> and stores \<open>NaN\<close> as an own property. For \<open>__proto__\<close> the guard sees
  the prototype object, and the assignment of \<open>NaN\<close> by \<open>++\<close> goes to the setter,
  which ignores a value that is not an object: nothing changes.
\<close>

definition trackFieldEdit :: "BehaviorTracker \<Rightarrow> string \<Rightarrow> BehaviorTracker" where
  "trackFieldEdit t fieldId =
     (let counts = fieldEditCounts t
      in case map_of counts fieldId of
           Some v \<Rightarrow>
             (let counts0 = (if truthy v then counts else AList.update fieldId (Num 0) counts)
              in t \<lparr> fieldEditCounts := AList.map_entry fieldId (\<lambda>c. js_add c (Num 1)) counts0 \<rparr>)
         | None \<Rightarrow>
             if fieldId = ''__proto__'' then t
             else if fieldId \<in> set object_prototype_functions
               then t \<lparr> fieldEditCounts := AList.update fieldId NaN counts \<rparr>
             else t \<lparr> fieldEditCounts :=
                        AList.map_entry fieldId (\<lambda>c. js_add c (Num 1))
                          (AList.update fieldId (Num 0) counts) \<rparr>)"

text \<open>\<open>Object.values(this.fieldEditCounts).reduce((a, b) => a + b, 0)\<close>.\<close>

definition getTotalFieldEdits :: "BehaviorTracker \<Rightarrow> number" where
  "getTotalFieldEdits t = foldl (\<lambda>a b. js_add a b) (Num 0) (map snd (fieldEditCounts t))"

subsection \<open>Mouse movement\<close>

text \<open>\<open>Math.atan2(y, x)\<close> on finite arguments (signed zeros are not told apart).\<close>

definition atan2 :: "real \<Rightarrow> real \<Rightarrow> real" where
  "atan2 y x =
     (if 0 < x then arctan (y / x)
      else if x < 0 then (if 0 \<le> y then arctan (y / x) + pi else arctan (y / x) - pi)
      else if 0 < y then pi / 2
      else if y < 0 then - (pi / 2)
      else 0)"

definition distance :: "position \<Rightarrow> position \<Rightarrow> real" where
  "distance prev cur = sqrt ((p_x cur - p_x prev) ^ 2 + (p_y cur - p_y prev) ^ 2)"

definition angleChange :: "position \<Rightarrow> position \<Rightarrow> position \<Rightarrow> real" where
  "angleChange prevPrev prev cur =
     (let angle1 = atan2 (p_y prev - p_y prevPrev) (p_x prev - p_x prevPrev);
          angle2 = atan2 (p_y cur - p_y prev) (p_x cur - p_x prev);
          change = \<bar>angle2 - angle1\<bar>
      in if change > pi then 2 * pi - change else change)"

text \<open>
  One iteration of the loop \<open>for (i = 1; i < this.mousePositions.length; i++)\<close>, on the
  pair \<open>(totalDistance, totalAngleChange)\<close>.
\<close>

definition mouse_step :: "position list \<Rightarrow> real \<times> real \<Rightarrow> nat \<Rightarrow> real \<times> real" where
  "mouse_step ps acc i =
     (let prev = ps ! (i - 1);
          cur = ps ! i;
          totalDistance = fst acc + distance prev cur
      in if i > 1 then (totalDistance, snd acc + angleChange (ps ! (i - 2)) prev cur)
         else (totalDistance, snd acc))"

record mouse_entropy =
  totalDistance :: real
  averageAngleChange :: number
  smoothness :: number

text \<open>The last division is by \<open>this.mousePositions.length - 2\<close>, whatever its value.\<close>

definition getMouseMovementEntropy :: "BehaviorTracker \<Rightarrow> mouse_entropy or_zero" where
  "getMouseMovementEntropy t =
     (let ps = mousePositions t
      in if length ps < 2 then Zero
         else
           let totals = foldl (mouse_step ps) (0, 0) [1 ..< length ps];
               avgAngleChange = js_div (snd totals) (real (length ps) - 2)
           in Obj \<lparr> totalDistance = fst totals,
                    averageAngleChange = avgAngleChange,
                    smoothness = avgAngleChange \<rparr>)"

subsection \<open>Seat hover\<close>

text \<open>
  \<open>seatHoverStartTime\<close> is \<open>null\<close> or a clock reading; \<open>!this.seatHoverStartTime\<close>
  holds for \<open>null\<close> and for the reading \<open>0\<close>.
\<close>

fun hovering :: "int option \<Rightarrow> bool" where
  "hovering None = False"
| "hovering (Some s) = (if s = 0 then False else True)"

definition startSeatHover :: "BehaviorTracker \<Rightarrow> int \<Rightarrow> BehaviorTracker" where
  "startSeatHover t now =
     (if hovering (seatHoverStartTime t) then t else t \<lparr> seatHoverStartTime := Some now \<rparr>)"

definition endSeatHover :: "BehaviorTracker \<Rightarrow> int \<Rightarrow> BehaviorTracker" where
  "endSeatHover t now =
     (case seatHoverStartTime t of
        None \<Rightarrow> t
      | Some s \<Rightarrow>
          if hovering (Some s)
          then t \<lparr> seatHesitationTime := seatHesitationTime t + (now - s),
                   seatHoverStartTime := None \<rparr>
          else t)"

definition getSeatHesitationTime :: "BehaviorTracker \<Rightarrow> int" where
  "getSeatHesitationTime t = seatHesitationTime t"

text \<open>A run of hover calls, each with the clock reading it sees.\<close>

datatype hover_call = StartSeatHover | EndSeatHover

fun hover_step :: "BehaviorTracker \<Rightarrow> hover_call \<times> int \<Rightarrow> BehaviorTracker" where
  "hover_step t (StartSeatHover, now) = startSeatHover t now"
| "hover_step t (EndSeatHover, now) = endSeatHover t now"

fun hover_run :: "BehaviorTracker \<Rightarrow> (hover_call \<times> int) list \<Rightarrow> BehaviorTracker" where
  "hover_run t [] = t"
| "hover_run t (c # cs) = hover_run (hover_step t c) cs"

text \<open>
  The clock of a run never goes back: no reading is earlier than the one before it;
  \<open>prev\<close> is the reading of the preceding call.
\<close>

fun clock_ok :: "int \<Rightarrow> (hover_call \<times> int) list \<Rightarrow> bool" where
  "clock_ok prev [] = True"
| "clock_ok prev ((c, now) # cs) = (prev \<le> now \<and> clock_ok now cs)"

subsection \<open>Clicks\<close>

definition trackClick :: "BehaviorTracker \<Rightarrow> BehaviorTracker" where
  "trackClick t = t \<lparr> totalClicks := totalClicks t + 1 \<rparr>"

definition getTotalClicks :: "BehaviorTracker \<Rightarrow> nat" where
  "getTotalClicks t = totalClicks t"

section \<open>The feature extractor\<close>

record all_metrics =
  sessionTime :: int
  m_seatHesitationTime :: int
  ktpKeystrokeDynamics :: "ktp_dynamics or_zero"
  fieldEditCount :: number
  mouseMovementEntropy :: "mouse_entropy or_zero"
  m_totalClicks :: nat

text \<open>
  \<open>getAllMetrics\<close> and \<open>exportForML\<close> are methods of the recorder: each returns its
  result together with the recorder as the call leaves it. \<open>now\<close> is the reading of
  \<open>Date.now()\<close> inside \<open>getSessionTime\<close>.
\<close>

definition getAllMetrics :: "BehaviorTracker \<Rightarrow> int \<Rightarrow> all_metrics \<times> BehaviorTracker" where
  "getAllMetrics t now =
     (let ktpDynamics = getKTPKeystrokeDynamics t;
          mouseEntropy = getMouseMovementEntropy t
      in (\<lparr> sessionTime = getSessionTime t now,
            m_seatHesitationTime = getSeatHesitationTime t,
            ktpKeystrokeDynamics = ktpDynamics,
            fieldEditCount = getTotalFieldEdits t,
            mouseMovementEntropy = mouseEntropy,
            m_totalClicks = getTotalClicks t \<rparr>, t))"

text \<open>
  The object literal of \<open>exportForML\<close>, as its properties in creation order.
  \<open>c ? 1 : 0\<close> on an \<open>undefined\<close> condition takes the second branch.
\<close>

definition exportForML :: "BehaviorTracker \<Rightarrow> int \<Rightarrow> (string \<times> number) list \<times> BehaviorTracker" where
  "exportForML t now =
     (let (metrics, t') = getAllMetrics t now;
          ktpDynamics = ktpKeystrokeDynamics metrics;
          mouseEntropy = mouseMovementEntropy metrics
      in ([(''session_time_ms'', Num (real_of_int (sessionTime metrics))),
           (''seat_hesitation_time_ms'', Num (real_of_int (m_seatHesitationTime metrics))),
           (''ktp_avg_keystroke_interval_ms'', or_0 (map_option Num (get_prop averageInterval ktpDynamics))),
           (''ktp_keystroke_variance'', or_0 (map_option Num (get_prop variance ktpDynamics))),
           (''ktp_total_entry_time_ms'',
              or_0 (map_option (\<lambda>d. Num (real_of_int d)) (get_prop totalTime ktpDynamics))),
           (''ktp_paste_detected'',
              (case get_prop pasteDetected ktpDynamics of Some True \<Rightarrow> Num 1 | _ \<Rightarrow> Num 0)),
           (''field_edit_count'', fieldEditCount metrics),
           (''mouse_total_distance'', or_0 (map_option Num (get_prop totalDistance mouseEntropy))),
           (''mouse_smoothness'', or_0 (get_prop smoothness mouseEntropy)),
           (''total_clicks'', Num (real (m_totalClicks metrics)))], t'))"

text \<open>Reading one feature of an exported vector.\<close>

definition feature :: "(string \<times> number) list \<times> BehaviorTracker \<Rightarrow> string \<Rightarrow> number option" where
  "feature exported name = map_of (fst exported) name"

text \<open>The canonical field list of the feature vector, in the words of the specification.\<close>

definition canonical_fields :: "string list" where
  "canonical_fields =
     [''session_time_ms'', ''seat_hesitation_time_ms'', ''ktp_avg_keystroke_interval_ms'',
      ''ktp_keystroke_variance'', ''ktp_total_entry_time_ms'', ''ktp_paste_detected'',
      ''field_edit_count'', ''mouse_total_distance'', ''mouse_smoothness'', ''total_clicks'']"

section \<open>The decision gate: component Checkout\<close>

text \<open>
  The state hooks of the component. \<open>aiSecurityStatus\<close> only ever holds one of the
  three strings \<open>'analyzing'\<close>, \<open>'passed'\<close>, \<open>'flagged'\<close>; \<open>securityScore\<close> starts
  as \<open>null\<close>.
\<close>

datatype security_status = Analyzing | Passed | Flagged

record behavior_data =
  startTime :: int
  clicks :: nat
  keystrokes :: nat
  mouseMovements :: nat
  scrollEvents :: nat
  formInteractions :: nat

record payment_info =
  cardNumber :: string
  cardName :: string
  expiryDate :: string
  cvv :: string
  bankName :: string
  virtualAccount :: string
  ewalletPhone :: string

record checkout_state =
  paymentMethod :: string
  aiSecurityStatus :: security_status
  securityScore :: "real option"
  behaviorData :: behavior_data
  paymentInfo :: payment_info

definition initial_checkout :: "int \<Rightarrow> checkout_state" where
  "initial_checkout now =
     \<lparr> paymentMethod = ''credit-card'', aiSecurityStatus = Analyzing, securityScore = None,
       behaviorData = \<lparr> startTime = now, clicks = 0, keystrokes = 0, mouseMovements = 0,
                        scrollEvents = 0, formInteractions = 0 \<rparr>,
       paymentInfo = \<lparr> cardNumber = [], cardName = [], expiryDate = [], cvv = [],
                       bankName = [], virtualAccount = [], ewalletPhone = [] \<rparr> \<rparr>"

text \<open>
  What the scoring call gives back to \<open>runAIAnalysis\<close>: \<open>fetch\<close> rejects; the response
  is not \<open>ok\<close>; the response is \<open>ok\<close> but reading its body throws (\<open>response.json()\<close>
  rejects, or the body is \<open>null\<close>); or the body is an object, of which the code reads
  \<open>prediction\<close>, \<open>confidence\<close> and \<open>trust_score\<close> (absent is \<open>None\<close>).
\<close>

record ai_result =
  prediction :: "string option"
  confidence :: "real option"
  trust_score :: "real option"

datatype fetch_outcome = FetchThrows | NotOk | BodyThrows | Ok ai_result

text \<open>\<open>x || y\<close> and \<open>x && x > c\<close>, \<open>x && x < c\<close> on an optional number.\<close>

fun truthy_opt :: "real option \<Rightarrow> bool" where
  "truthy_opt None = False"
| "truthy_opt (Some r) = (if r = 0 then False else True)"

definition score_of :: "ai_result \<Rightarrow> real" where
  "score_of result =
     (if truthy_opt (confidence result) then the (confidence result)
      else if truthy_opt (trust_score result) then the (trust_score result)
      else 0)"

definition verdict :: "ai_result \<Rightarrow> security_status" where
  "verdict result =
     (if prediction result = Some ''human''
         \<or> (truthy_opt (confidence result) \<and> the (confidence result) > 7 / 10) then Passed
      else if prediction result = Some ''bot''
         \<or> (truthy_opt (confidence result) \<and> the (confidence result) < 3 / 10) then Flagged
      else Analyzing)"

text \<open>
  \<open>runAIAnalysis\<close>: the state after the call. A response that is not \<open>ok\<close> skips the
  \<open>if\<close> and sets nothing; an exception reaches the \<open>catch\<close>, which sets
  \<open>'analyzing'\<close>; by then \<open>setSecurityScore\<close> has not run.
\<close>

definition runAIAnalysis :: "checkout_state \<Rightarrow> fetch_outcome \<Rightarrow> checkout_state" where
  "runAIAnalysis st outcome =
     (case outcome of
        FetchThrows \<Rightarrow> st \<lparr> aiSecurityStatus := Analyzing \<rparr>
      | NotOk \<Rightarrow> st
      | BodyThrows \<Rightarrow> st \<lparr> aiSecurityStatus := Analyzing \<rparr>
      | Ok result \<Rightarrow> st \<lparr> securityScore := Some (score_of result),
                             aiSecurityStatus := verdict result \<rparr>)"

text \<open>The periodic tick calls \<open>runAIAnalysis\<close> every 10 seconds: a run of scoring calls.\<close>

fun ticks :: "checkout_state \<Rightarrow> fetch_outcome list \<Rightarrow> checkout_state" where
  "ticks st [] = st"
| "ticks st (outcome # outcomes) = ticks (runAIAnalysis st outcome) outcomes"

fun transport_failure :: "fetch_outcome \<Rightarrow> bool" where
  "transport_failure FetchThrows = True"
| "transport_failure NotOk = True"
| "transport_failure BodyThrows = False"
| "transport_failure (Ok result) = False"

text \<open>
  \<open>handleSubmit\<close>. The handler is a closure of one render: \<open>aiSecurityStatus\<close>,
  \<open>securityScore\<close>, \<open>behaviorData\<close>, \<open>paymentMethod\<close> and \<open>paymentInfo\<close> are the
  constants of that render (\<open>st\<close>), before and after the \<open>await\<close>; the setters called
  by \<open>runAIAnalysis\<close> change the state of the component for the next render. The result
  is that next state and what the handler did: an \<open>alert\<close> and return, or the call of
  \<open>onComplete\<close> with its argument.
\<close>

datatype alert = SecurityCheckFailed | FillCardDetails | SelectBank | EnterPhone

record security_check =
  sc_method :: string
  sc_status :: security_status
  sc_score :: "real option"
  sc_behaviorData :: behavior_data

record completion =
  c_paymentMethod :: string
  c_paymentInfo :: payment_info
  securityCheck :: security_check

datatype submit_result = Alerted alert | Completed completion

definition handleSubmit :: "checkout_state \<Rightarrow> fetch_outcome \<Rightarrow> checkout_state \<times> submit_result" where
  "handleSubmit st outcome =
     (if aiSecurityStatus st = Flagged then (st, Alerted SecurityCheckFailed)
      else if paymentMethod st = ''credit-card''
              \<and> (cardNumber (paymentInfo st) = [] \<or> cardName (paymentInfo st) = []
                   \<or> expiryDate (paymentInfo st) = [] \<or> cvv (paymentInfo st) = [])
        then (st, Alerted FillCardDetails)
      else if paymentMethod st = ''bank-transfer'' \<and> bankName (paymentInfo st) = []
        then (st, Alerted SelectBank)
      else if paymentMethod st = ''ewallet'' \<and> ewalletPhone (paymentInfo st) = []
        then (st, Alerted EnterPhone)
      else (runAIAnalysis st outcome,
            Completed \<lparr> c_paymentMethod = paymentMethod st,
                        c_paymentInfo = paymentInfo st,
                        securityCheck = \<lparr> sc_method = ''AI'',
                                          sc_status = aiSecurityStatus st,
                                          sc_score = securityScore st,
                                          sc_behaviorData = behaviorData st \<rparr> \<rparr>))"

section \<open>The ingestion endpoint: POST of save-training-data\<close>

text \<open>A parsed JSON value; an absent property (\<open>undefined\<close>) is \<open>None\<close>.\<close>

datatype json = JNull | JBool bool | JNum real | JStr string | JArr "json list"
  | JObj "(string \<times> json) list"

fun truthy_json :: "json option \<Rightarrow> bool" where
  "truthy_json None = False"
| "truthy_json (Some JNull) = False"
| "truthy_json (Some (JBool b)) = b"
| "truthy_json (Some (JNum r)) = (if r = 0 then False else True)"
| "truthy_json (Some (JStr s)) = (if s = [] then False else True)"
| "truthy_json (Some (JArr vs)) = True"
| "truthy_json (Some (JObj kvs)) = True"

text \<open>\<open>v || d\<close>.\<close>

definition js_or :: "json option \<Rightarrow> json \<Rightarrow> json" where
  "js_or v d = (if truthy_json v then the v else d)"

text \<open>Reading a property of a parsed object: of a repeated key the last one counts.\<close>

definition field :: "(string \<times> json) list \<Rightarrow> string \<Rightarrow> json option" where
  "field kvs k = map_of (rev kvs) k"

text \<open>The object literal handed to \<open>insert\<close>.\<close>

definition insert_row :: "json \<Rightarrow> (string \<times> json) list \<Rightarrow> (string \<times> json) list" where
  "insert_row user_id rest =
     [(''user_id'', user_id),
      (''session_time_ms'', js_or (field rest ''session_time_ms'') (JNum 0)),
      (''seat_hesitation_time_ms'', js_or (field rest ''seat_hesitation_time_ms'') (JNum 0)),
      (''ktp_avg_keystroke_interval_ms'', js_or (field rest ''ktp_avg_keystroke_interval_ms'') JNull),
      (''ktp_keystroke_variance'', js_or (field rest ''ktp_keystroke_variance'') JNull),
      (''ktp_total_entry_time_ms'', js_or (field rest ''ktp_total_entry_time_ms'') JNull),
      (''ktp_paste_detected'', js_or (field rest ''ktp_paste_detected'') (JNum 0)),
      (''field_edit_count'', js_or (field rest ''field_edit_count'') (JNum 0)),
      (''mouse_total_distance'', js_or (field rest ''mouse_total_distance'') JNull),
      (''mouse_smoothness'', js_or (field rest ''mouse_smoothness'') JNull),
      (''total_clicks'', js_or (field rest ''total_clicks'') (JNum 0))]"

text \<open>
  The request body: \<open>req.json()\<close> throws on a malformed body. The database client is
  outside the repository: it is a parameter, which for a row either throws, returns an
  error message, or returns the stored data.
\<close>

datatype request_body = Malformed | Parsed json

datatype db_result = DbThrows | DbError string | DbData json

record response =
  r_status :: nat
  r_success :: bool
  r_error :: "string option"
  r_data :: "json option"

text \<open>
  \<open>const { user_id, ...behaviorData } = body\<close> (\<open>rest\<close> below) throws on \<open>null\<close>; on a body that is
  not an object \<open>user_id\<close> is \<open>undefined\<close>.
\<close>

definition POST :: "request_body \<Rightarrow> ((string \<times> json) list \<Rightarrow> db_result) \<Rightarrow> response" where
  "POST req db_insert =
     (let server_error = \<lparr> r_status = 500, r_success = False, r_error = Some ''server_error'', r_data = None \<rparr>;
          missing = \<lparr> r_status = 400, r_success = False, r_error = Some ''Missing user_id'', r_data = None \<rparr>
      in case req of
           Malformed \<Rightarrow> server_error
         | Parsed JNull \<Rightarrow> server_error
         | Parsed (JObj body) \<Rightarrow>
             (let user_id = field body ''user_id'';
                  rest = filter (\<lambda>kv. fst kv \<noteq> ''user_id'') body
              in if truthy_json user_id
                 then (case db_insert (insert_row (the user_id) rest) of
                         DbThrows \<Rightarrow> server_error
                       | DbError message \<Rightarrow>
                           \<lparr> r_status = 500, r_success = False, r_error = Some message, r_data = None \<rparr>
                       | DbData data \<Rightarrow>
                           \<lparr> r_status = 200, r_success = True, r_error = None, r_data = Some data \<rparr>)
                 else missing)
         | Parsed other \<Rightarrow> missing)"

text \<open>The two groups of numeric columns, by the default the code gives each.\<close>

definition null_default_fields :: "string list" where
  "null_default_fields =
     [''ktp_avg_keystroke_interval_ms'', ''ktp_keystroke_variance'', ''ktp_total_entry_time_ms'',
      ''mouse_total_distance'', ''mouse_smoothness'']"

definition zero_default_fields :: "string list" where
  "zero_default_fields =
     [''session_time_ms'', ''seat_hesitation_time_ms'', ''ktp_paste_detected'',
      ''field_edit_count'', ''total_clicks'']"

section \<open>Notions used in the statements\<close>

text \<open>
  The reading of the last call of a run, and what a run keeps true of
  \<open>seatHoverStartTime\<close>: when set, it is a reading not later than the last.
\<close>

fun last_reading :: "int \<Rightarrow> (hover_call \<times> int) list \<Rightarrow> int" where
  "last_reading prev [] = prev"
| "last_reading prev ((c, now) # cs) = last_reading now cs"

fun hover_inv :: "int option \<Rightarrow> int \<Rightarrow> bool" where
  "hover_inv None prev = True"
| "hover_inv (Some s) prev = (s \<le> prev)"

text \<open>
  The key-down events of a session, and whether a paste event was recorded, as
  \<open>getKTPKeystrokeDynamics\<close> computes them.
\<close>

definition keydowns :: "BehaviorTracker \<Rightarrow> keystroke list" where
  "keydowns t = filter (\<lambda>e. k_eventType e = ''keydown'') (ktpKeystrokeData t)"

definition pasted :: "BehaviorTracker \<Rightarrow> bool" where
  "pasted t = list_ex (\<lambda>e. k_eventType e = ''paste'') (ktpKeystrokeData t)"

text \<open>
  Keystroke dynamics in the words of the specification: the intervals
  \<open>\<Delta>\<^sub>i = t\<^sub>i\<^sub>+\<^sub>1 - t\<^sub>i\<close> of the key-down timestamps, their mean, and the
  population variance \<open>mean((\<Delta>\<^sub>i - avg_interval)\<^sup>2)\<close>, which divides by the number of
  intervals.
\<close>

fun deltas :: "int list \<Rightarrow> int list" where
  "deltas (a # b # rest) = (b - a) # deltas (b # rest)"
| "deltas [a] = []"
| "deltas [] = []"

definition mean :: "real list \<Rightarrow> real" where
  "mean xs = sum_list xs / real (length xs)"

definition population_variance :: "real list \<Rightarrow> real" where
  "population_variance xs = mean (map (\<lambda>x. (x - mean xs) ^ 2) xs)"

text \<open>The row that \<open>POST\<close> hands to \<open>insert\<close> for a body that is an object.\<close>

definition stored_row :: "(string \<times> json) list \<Rightarrow> (string \<times> json) list" where
  "stored_row body =
     insert_row (the (field body ''user_id'')) (filter (\<lambda>kv. fst kv \<noteq> ''user_id'') body)"

section \<open>Pointer-sample buffer\<close>

lemma trackMouseMovement_length:
  "length (mousePositions t) \<le> 100 \<Longrightarrow> length (mousePositions (trackMouseMovement t x y now)) \<le> 100"
  by (simp add: trackMouseMovement_def Let_def)

lemma trackMouseMovement_cases:
  "mousePositions (trackMouseMovement t x y now)
     = (if length (mousePositions t) < 100 then mousePositions t @ [sample (x, y, now)]
        else drop 1 (mousePositions t @ [sample (x, y, now)]))"
  by (cases "mousePositions t") (simp_all add: trackMouseMovement_def Let_def sample_def drop_Suc)

lemma trackMouseMovement_full:
  assumes "length (mousePositions t) = 100"
  shows "mousePositions (trackMouseMovement t x y now) = tl (mousePositions t) @ [sample (x, y, now)]"
proof -
  from assms have "mousePositions t \<noteq> []" by auto
  with assms show ?thesis by (simp add: trackMouseMovement_def Let_def sample_def)
qed

text \<open>
  The buffer after a run is the end of everything pushed so far: the first samples are
  dropped, as many as exceed 100.
\<close>

lemma trackMouseMovements_drop:
  "length (mousePositions t) \<le> 100 \<Longrightarrow>
   mousePositions (trackMouseMovements t calls)
     = drop (length (mousePositions t) + length calls - 100) (mousePositions t @ map sample calls)"
proof (induction calls arbitrary: t)
  case Nil
  then show ?case by simp
next
  case (Cons c calls)
  obtain x y now where c: "c = (x, y, now)" by (cases c) auto
  let ?t' = "trackMouseMovement t x y now"
  have len: "length (mousePositions ?t') \<le> 100"
    using Cons.prems by (rule trackMouseMovement_length)
  have "mousePositions (trackMouseMovements t (c # calls)) = mousePositions (trackMouseMovements ?t' calls)"
    unfolding c by simp
  also have "\<dots> = drop (length (mousePositions ?t') + length calls - 100) (mousePositions ?t' @ map sample calls)"
    using len by (rule Cons.IH)
  also have "\<dots> = drop (length (mousePositions t) + length (c # calls) - 100) (mousePositions t @ map sample (c # calls))"
  proof (cases "length (mousePositions t) < 100")
    case True
    then show ?thesis by (simp add: trackMouseMovement_cases c)
  next
    case False
    with Cons.prems have full: "length (mousePositions t) = 100" by simp
    have "mousePositions ?t' @ map sample calls = drop 1 (mousePositions t @ map sample (c # calls))"
      using full by (simp add: trackMouseMovement_cases c)
    moreover have "length (mousePositions ?t') = 100"
      using full by (simp add: trackMouseMovement_cases)
    ultimately show ?thesis using full by simp
  qed
  finally show ?case .
qed

text \<open>
  C6. Starting from a freshly constructed recorder, after any run of
  \<open>trackMouseMovement\<close> calls the buffer holds at most 100 samples, namely the last
  100 pushed (all of them while there are fewer), in the order of the calls; and a call
  made on a full buffer of 100 samples drops exactly the oldest one and appends the new
  sample at the end, which leaves 100.
\<close>

theorem pointer_buffer_bounded_fifo:
  "length (mousePositions (trackMouseMovements (constructor t0) calls)) \<le> 100
   \<and> mousePositions (trackMouseMovements (constructor t0) calls)
       = drop (length calls - 100) (map sample calls)
   \<and> (length (mousePositions t) = 100 \<longrightarrow>
        mousePositions (trackMouseMovement t x y now) = tl (mousePositions t) @ [sample (x, y, now)]
        \<and> length (mousePositions (trackMouseMovement t x y now)) = 100)"
proof -
  have fresh: "length (mousePositions (constructor t0)) \<le> 100"
    by (simp add: constructor_def)
  have kept: "mousePositions (trackMouseMovements (constructor t0) calls)
                = drop (length calls - 100) (map sample calls)"
    using trackMouseMovements_drop [OF fresh, of calls] by (simp add: constructor_def)
  have bounded: "length (mousePositions (trackMouseMovements (constructor t0) calls)) \<le> 100"
    unfolding kept by simp
  have fifo: "mousePositions (trackMouseMovement t x y now) = tl (mousePositions t) @ [sample (x, y, now)]
        \<and> length (mousePositions (trackMouseMovement t x y now)) = 100"
    if "length (mousePositions t) = 100"
    using that trackMouseMovement_full [OF that, of x y now] by simp
  from bounded kept fifo show ?thesis by blast
qed

theorem pointer_buffer_bounded_fifo_witness:
  "length (mousePositions ((constructor 5) \<lparr> mousePositions := replicate 100 (sample (1, 2, 3)) \<rparr>)) = 100
   \<and> mousePositions (trackMouseMovement
         ((constructor 5) \<lparr> mousePositions := replicate 100 (sample (1, 2, 3)) \<rparr>) 7 8 9)
       = replicate 99 (sample (1, 2, 3)) @ [sample (7, 8, 9)]
   \<and> mousePositions (trackMouseMovements (constructor 5) [(1, 2, 3), (7, 8, 9)])
       = [sample (1, 2, 3), sample (7, 8, 9)]"
  using pointer_buffer_bounded_fifo
    [of 5 "[(1, 2, 3), (7, 8, 9)]"
        "(constructor 5) \<lparr> mousePositions := replicate 100 (sample (1, 2, 3)) \<rparr>" 7 8 9]
  by (simp add: numeral_eq_Suc)

section \<open>Seat hesitation time\<close>

lemma hover_step_inv:
  assumes "hover_inv (seatHoverStartTime t) prev" "prev \<le> now"
  shows "hover_inv (seatHoverStartTime (hover_step t (c, now))) now
         \<and> seatHesitationTime t \<le> seatHesitationTime (hover_step t (c, now))"
  using assms
  by (cases c; cases "seatHoverStartTime t")
     (auto simp: startSeatHover_def endSeatHover_def)

lemma hover_run_inv:
  "hover_inv (seatHoverStartTime t) prev \<Longrightarrow> clock_ok prev calls \<Longrightarrow>
   hover_inv (seatHoverStartTime (hover_run t calls)) (last_reading prev calls)
   \<and> seatHesitationTime t \<le> seatHesitationTime (hover_run t calls)"
proof (induction calls arbitrary: t prev)
  case Nil
  then show ?case by simp
next
  case (Cons a calls)
  obtain c now where a: "a = (c, now)" by (cases a) auto
  from Cons.prems have clk: "prev \<le> now" "clock_ok now calls"
    by (simp_all add: a)
  from hover_step_inv [OF Cons.prems(1) clk(1), of c]
  have st: "hover_inv (seatHoverStartTime (hover_step t (c, now))) now"
    and le: "seatHesitationTime t \<le> seatHesitationTime (hover_step t (c, now))"
    by simp_all
  from Cons.IH [OF st clk(2)] le show ?case
    by (simp add: a)
qed

lemma hover_run_append: "hover_run t (xs @ ys) = hover_run (hover_run t xs) ys"
  by (induction xs arbitrary: t) simp_all

lemma clock_ok_append:
  "clock_ok prev (xs @ ys) = (clock_ok prev xs \<and> clock_ok (last_reading prev xs) ys)"
  by (induction xs arbitrary: prev) auto

lemma sorted_clock_ok: "sorted (prev # map snd calls) \<Longrightarrow> clock_ok prev calls"
proof (induction calls arbitrary: prev)
  case Nil
  then show ?case by simp
next
  case (Cons a calls)
  obtain c now where a: "a = (c, now)" by (cases a) auto
  from Cons.prems have "prev \<le> now" and "sorted (now # map snd calls)"
    by (simp_all add: a)
  with Cons.IH show ?case by (simp add: a)
qed

lemma sorted_readings_clock_ok:
  "sorted (map snd calls) \<Longrightarrow> \<exists>prev. clock_ok prev calls"
proof (cases calls)
  case Nil
  then show ?thesis by simp
next
  case (Cons a rest)
  assume "sorted (map snd calls)"
  with Cons have "sorted (snd a # map snd calls)" by simp
  then have "clock_ok (snd a) calls" by (rule sorted_clock_ok)
  then show ?thesis ..
qed

text \<open>
  C9, as amended. Let the clock readings of a run of \<open>startSeatHover\<close> and
  \<open>endSeatHover\<close> calls never go back. Then, from a freshly constructed recorder,
  the accumulated seat hesitation time at any point of the run is at most what it is
  at any later point. Whatever the clock does: \<open>startSeatHover\<close> never changes the
  accumulated time; while hovering (\<open>u\<close>), a further \<open>startSeatHover\<close> changes nothing
  at all, and \<open>endSeatHover\<close> adds exactly the reading of the end minus the reading
  of the start of the hover, and ends it; while not hovering (\<open>v\<close>), \<open>endSeatHover\<close>
  changes nothing at all, and a start at a reading \<open>n0\<close> other than \<open>0\<close> followed
  by an end at \<open>n1\<close> adds exactly \<open>n1 - n0\<close>; a second \<open>endSeatHover\<close> right after
  one changes nothing, in any state \<open>w\<close>.
\<close>

theorem seat_hover_accumulation:
  assumes clock: "sorted (map snd (before @ after))"
    and nonzero: "n0 \<noteq> 0"
  shows "seatHesitationTime (hover_run (constructor t0) before)
           \<le> seatHesitationTime (hover_run (constructor t0) (before @ after))
    \<and> seatHesitationTime (startSeatHover w now) = seatHesitationTime w
    \<and> (hovering (seatHoverStartTime u) \<longrightarrow>
          startSeatHover u now = u
          \<and> seatHesitationTime (endSeatHover u now)
              = seatHesitationTime u + (now - the (seatHoverStartTime u))
          \<and> seatHoverStartTime (endSeatHover u now) = None)
    \<and> (\<not> hovering (seatHoverStartTime v) \<longrightarrow>
          endSeatHover v now = v
          \<and> seatHesitationTime (endSeatHover (startSeatHover v n0) n1)
              = seatHesitationTime v + (n1 - n0))
    \<and> endSeatHover (endSeatHover w n1) n2 = endSeatHover w n1"
proof -
  from sorted_readings_clock_ok [OF clock]
  obtain prev where ok: "clock_ok prev (before @ after)" ..
  have fresh: "hover_inv (seatHoverStartTime (constructor t0)) prev"
    by (simp add: constructor_def)
  from ok have c1: "clock_ok prev before" and c2: "clock_ok (last_reading prev before) after"
    by (simp_all add: clock_ok_append)
  from hover_run_inv [OF fresh c1]
  have mid: "hover_inv (seatHoverStartTime (hover_run (constructor t0) before)) (last_reading prev before)"
    by simp
  from hover_run_inv [OF mid c2]
  have mono: "seatHesitationTime (hover_run (constructor t0) before)
           \<le> seatHesitationTime (hover_run (constructor t0) (before @ after))"
    by (simp add: hover_run_append)
  have start_keeps: "seatHesitationTime (startSeatHover w now) = seatHesitationTime w"
    by (simp add: startSeatHover_def)
  have while_hovering: "startSeatHover u now = u
          \<and> seatHesitationTime (endSeatHover u now)
              = seatHesitationTime u + (now - the (seatHoverStartTime u))
          \<and> seatHoverStartTime (endSeatHover u now) = None"
    if "hovering (seatHoverStartTime u)"
    using that by (cases "seatHoverStartTime u") (auto simp: startSeatHover_def endSeatHover_def)
  have while_idle: "endSeatHover v now = v
          \<and> seatHesitationTime (endSeatHover (startSeatHover v n0) n1)
              = seatHesitationTime v + (n1 - n0)"
    if "\<not> hovering (seatHoverStartTime v)"
    using that nonzero
    by (cases "seatHoverStartTime v") (auto simp: startSeatHover_def endSeatHover_def split: if_splits)
  have twice: "endSeatHover (endSeatHover w n1) n2 = endSeatHover w n1"
    by (cases "seatHoverStartTime w") (auto simp: endSeatHover_def)
  from mono start_keeps while_hovering while_idle twice show ?thesis by blast
qed

theorem seat_hover_accumulation_witness:
  "sorted (map snd ([(StartSeatHover, 1100 :: int), (StartSeatHover, 1200), (EndSeatHover, 1400)]
                    @ [(EndSeatHover, 1500), (StartSeatHover, 1600), (EndSeatHover, 1900)]))
   \<and> (1100 :: int) \<noteq> 0
   \<and> seatHesitationTime (hover_run (constructor 1000)
        [(StartSeatHover, 1100), (StartSeatHover, 1200), (EndSeatHover, 1400)]) = 300
   \<and> seatHesitationTime (hover_run (constructor 1000)
        ([(StartSeatHover, 1100), (StartSeatHover, 1200), (EndSeatHover, 1400)]
         @ [(EndSeatHover, 1500), (StartSeatHover, 1600), (EndSeatHover, 1900)])) = 600
   \<and> hovering (seatHoverStartTime (startSeatHover (constructor 1000) 1100))
   \<and> seatHesitationTime (endSeatHover (startSeatHover (constructor 1000) 1100) 1400) = 300
   \<and> \<not> hovering (seatHoverStartTime (constructor 1000))
   \<and> endSeatHover (constructor 1000) 1400 = constructor 1000
   \<and> seatHesitationTime (endSeatHover (startSeatHover (constructor 1000) 1100) 1400) = 0 + (1400 - 1100)"
proof -
  have clock: "sorted (map snd ([(StartSeatHover, 1100 :: int), (StartSeatHover, 1200), (EndSeatHover, 1400)]
                    @ [(EndSeatHover, 1500), (StartSeatHover, 1600), (EndSeatHover, 1900)]))"
    by simp
  have nonzero: "(1100 :: int) \<noteq> 0" by simp
  from seat_hover_accumulation
    [OF clock nonzero, of 1000 "constructor 1000" 1400 "startSeatHover (constructor 1000) 1100"
        "constructor 1000" 1400 1500]
    clock
  show ?thesis
    by (simp add: constructor_def startSeatHover_def endSeatHover_def)
qed

text \<open>
  The claim as first stated, for every run whatever its readings, fails in two ways.
  When the clock goes back between the start and the end of a hover (start at 1200,
  end at 1100), \<open>endSeatHover\<close> adds a negative time and the accumulated time
  decreases from 0 to -100. And a hover started at the reading \<open>0\<close> does not count
  as started: the end at 500 adds nothing instead of the 500 elapsed.
\<close>

theorem seat_hover_backward_clock_counterexample:
  "seatHesitationTime (hover_run (constructor 1000) [(StartSeatHover, 1200)]) = 0
   \<and> seatHesitationTime (hover_run (constructor 1000) [(StartSeatHover, 1200), (EndSeatHover, 1100)]) = - 100
   \<and> seatHesitationTime (hover_run (constructor 1000) [(StartSeatHover, 1200), (EndSeatHover, 1100)])
       < seatHesitationTime (hover_run (constructor 1000) [(StartSeatHover, 1200)])
   \<and> seatHesitationTime (endSeatHover (startSeatHover (constructor 0) 0) 500) = 0"
  by (simp add: constructor_def startSeatHover_def endSeatHover_def)

section \<open>The decision gate\<close>

lemma runAIAnalysis_transport_failure:
  "transport_failure outcome \<Longrightarrow> aiSecurityStatus st = Analyzing \<Longrightarrow>
   aiSecurityStatus (runAIAnalysis st outcome) = Analyzing"
  by (cases outcome) (simp_all add: runAIAnalysis_def)

lemma ticks_transport_failure:
  "list_all transport_failure outcomes \<Longrightarrow> aiSecurityStatus st = Analyzing \<Longrightarrow>
   aiSecurityStatus (ticks st outcomes) = Analyzing"
proof (induction outcomes arbitrary: st)
  case Nil
  then show ?case by simp
next
  case (Cons outcome outcomes)
  from Cons.prems have "aiSecurityStatus (runAIAnalysis st outcome) = Analyzing"
    by (simp add: runAIAnalysis_transport_failure)
  with Cons.IH Cons.prems(1) show ?case by simp
qed

text \<open>
  C3. A scoring call that fails in transport (\<open>fetch\<close> throws, or the response is not
  \<open>ok\<close>) leaves a gate that is \<open>analyzing\<close> in \<open>analyzing\<close>, so not in \<open>passed\<close>:
  for one call of \<open>runAIAnalysis\<close>, for any run of periodic ticks that all fail in
  transport, and for the call made by \<open>handleSubmit\<close>. In any state \<open>st'\<close>, a call
  that fails in transport leaves the gate \<open>passed\<close> only if it was \<open>passed\<close> before.
\<close>

theorem transport_failure_keeps_analyzing:
  assumes "aiSecurityStatus st = Analyzing"
    and "transport_failure outcome"
    and "list_all transport_failure outcomes"
  shows "aiSecurityStatus (runAIAnalysis st outcome) = Analyzing
    \<and> aiSecurityStatus (runAIAnalysis st outcome) \<noteq> Passed
    \<and> aiSecurityStatus (ticks st outcomes) = Analyzing
    \<and> aiSecurityStatus (fst (handleSubmit st outcome)) = Analyzing
    \<and> (aiSecurityStatus (runAIAnalysis st' outcome) = Passed \<longrightarrow> aiSecurityStatus st' = Passed)"
proof -
  have one: "aiSecurityStatus (runAIAnalysis st outcome) = Analyzing"
    using assms(2) assms(1) by (rule runAIAnalysis_transport_failure)
  have run: "aiSecurityStatus (ticks st outcomes) = Analyzing"
    using assms(3) assms(1) by (rule ticks_transport_failure)
  have submit: "aiSecurityStatus (fst (handleSubmit st outcome)) = Analyzing"
    using one assms(1) by (simp add: handleSubmit_def)
  have other: "aiSecurityStatus st' = Passed"
    if "aiSecurityStatus (runAIAnalysis st' outcome) = Passed"
    using that assms(2) by (cases outcome) (simp_all add: runAIAnalysis_def)
  from one run submit other show ?thesis by simp
qed

theorem transport_failure_keeps_analyzing_witness:
  "aiSecurityStatus (initial_checkout 0) = Analyzing
   \<and> transport_failure FetchThrows
   \<and> list_all transport_failure [NotOk, FetchThrows, NotOk]
   \<and> aiSecurityStatus (runAIAnalysis (initial_checkout 0) FetchThrows) = Analyzing
   \<and> aiSecurityStatus (ticks (initial_checkout 0) [NotOk, FetchThrows, NotOk]) = Analyzing
   \<and> aiSecurityStatus (fst (handleSubmit (initial_checkout 0) FetchThrows)) = Analyzing"
proof -
  have a: "aiSecurityStatus (initial_checkout 0) = Analyzing"
    by (simp add: initial_checkout_def)
  have b: "transport_failure FetchThrows" by simp
  have c: "list_all transport_failure [NotOk, FetchThrows, NotOk]" by simp
  from transport_failure_keeps_analyzing [OF a b c] a b c show ?thesis by simp
qed

text \<open>
  C1. What \<open>handleSubmit\<close> does with the re-score it awaits. For every state of the
  render and any two outcomes of the final scoring call, the handler does the same thing
  (the same alert, or \<open>onComplete\<close> with the same argument): the verdict of the final
  re-score does not reach the decision or the payload. At the state \<open>st\<close> below (initial
  state, card details filled in) and a final response with prediction \<open>'bot'\<close> and
  confidence \<open>0.1\<close>, the gate becomes \<open>flagged\<close>, and yet \<open>onComplete\<close> is called,
  with status \<open>analyzing\<close> and score \<open>null\<close>.
\<close>

theorem handleSubmit_ignores_final_rescore:
  "snd (handleSubmit s outcome1) = snd (handleSubmit s outcome2)
   \<and> (let st = (initial_checkout 0)
                  \<lparr> paymentInfo := \<lparr> cardNumber = ''4111111111111111'', cardName = ''A B'',
                                     expiryDate = ''12/30'', cvv = ''123'', bankName = [],
                                     virtualAccount = [], ewalletPhone = [] \<rparr> \<rparr>;
            bot = Ok \<lparr> prediction = Some ''bot'', confidence = Some (1 / 10), trust_score = None \<rparr>
        in aiSecurityStatus st = Analyzing
           \<and> verdict \<lparr> prediction = Some ''bot'', confidence = Some (1 / 10), trust_score = None \<rparr> = Flagged
           \<and> aiSecurityStatus (fst (handleSubmit st bot)) = Flagged
           \<and> snd (handleSubmit st bot)
               = Completed \<lparr> c_paymentMethod = ''credit-card'',
                              c_paymentInfo = paymentInfo st,
                              securityCheck = \<lparr> sc_method = ''AI'', sc_status = Analyzing,
                                                sc_score = None,
                                                sc_behaviorData = behaviorData st \<rparr> \<rparr>)"
proof -
  have same: "snd (handleSubmit s outcome1) = snd (handleSubmit s outcome2)"
    by (auto simp: handleSubmit_def)
  have v: "verdict \<lparr> prediction = Some ''bot'', confidence = Some (1 / 10), trust_score = None \<rparr> = Flagged"
    by (simp add: verdict_def)
  show ?thesis
  proof (rule conjI)
    show "snd (handleSubmit s outcome1) = snd (handleSubmit s outcome2)"
      by (rule same)
  next
    show "let st = (initial_checkout 0)
                  \<lparr> paymentInfo := \<lparr> cardNumber = ''4111111111111111'', cardName = ''A B'',
                                     expiryDate = ''12/30'', cvv = ''123'', bankName = [],
                                     virtualAccount = [], ewalletPhone = [] \<rparr> \<rparr>;
            bot = Ok \<lparr> prediction = Some ''bot'', confidence = Some (1 / 10), trust_score = None \<rparr>
        in aiSecurityStatus st = Analyzing
           \<and> verdict \<lparr> prediction = Some ''bot'', confidence = Some (1 / 10), trust_score = None \<rparr> = Flagged
           \<and> aiSecurityStatus (fst (handleSubmit st bot)) = Flagged
           \<and> snd (handleSubmit st bot)
               = Completed \<lparr> c_paymentMethod = ''credit-card'',
                              c_paymentInfo = paymentInfo st,
                              securityCheck = \<lparr> sc_method = ''AI'', sc_status = Analyzing,
                                                sc_score = None,
                                                sc_behaviorData = behaviorData st \<rparr> \<rparr>"
      unfolding Let_def
      by (simp add: v handleSubmit_def runAIAnalysis_def initial_checkout_def)
  qed
qed

theorem handleSubmit_ignores_final_rescore_witness:
  "snd (handleSubmit (initial_checkout 0) (Ok \<lparr> prediction = Some ''bot'', confidence = None, trust_score = None \<rparr>))
     = snd (handleSubmit (initial_checkout 0) FetchThrows)
   \<and> snd (handleSubmit (initial_checkout 0) FetchThrows) = Alerted FillCardDetails"
  using handleSubmit_ignores_final_rescore
    [of "initial_checkout 0" "Ok \<lparr> prediction = Some ''bot'', confidence = None, trust_score = None \<rparr>" FetchThrows]
  by (simp add: handleSubmit_def initial_checkout_def)

section \<open>The feature vector\<close>

lemma exportForML_fields: "map fst (fst (exportForML t now)) = canonical_fields"
  by (simp add: exportForML_def getAllMetrics_def canonical_fields_def Let_def)

lemma exportForML_state: "snd (exportForML t now) = t"
  by (simp add: exportForML_def getAllMetrics_def Let_def)

lemma getAllMetrics_state: "snd (getAllMetrics t now) = t"
  by (simp add: getAllMetrics_def Let_def)

lemma canonical_fields_distinct: "distinct canonical_fields \<and> length canonical_fields = 10"
  by (simp add: canonical_fields_def)

text \<open>
  Field edits through the model: two edits of an ordinary field count 2; the first edit
  of a field named \<open>toString\<close> stores \<open>NaN\<close> and the second restarts from 0; an
  edit of \<open>__proto__\<close> is lost.
\<close>

lemma trackFieldEdit_examples:
  "fieldEditCounts (trackFieldEdit (trackFieldEdit (constructor 0) ''ktp'') ''ktp'') = [(''ktp'', Num 2)]"
  "fieldEditCounts (trackFieldEdit (constructor 0) ''toString'') = [(''toString'', NaN)]"
  "fieldEditCounts (trackFieldEdit (trackFieldEdit (constructor 0) ''toString'') ''toString'')
     = [(''toString'', Num 1)]"
  "trackFieldEdit (constructor 0) ''__proto__'' = constructor 0"
  "getTotalFieldEdits (trackFieldEdit (trackFieldEdit (constructor 0) ''ktp'') ''toString'') = NaN"
  by (simp_all add: trackFieldEdit_def constructor_def object_prototype_functions_def
        getTotalFieldEdits_def Let_def)

text \<open>
  C2. For every recorder state and clock reading, the properties of the object returned
  by \<open>exportForML\<close> are exactly the ten canonical fields, in the canonical order and
  without repetition. \<open>exportForML\<close> and \<open>getAllMetrics\<close> leave the recorder as they
  found it, so a second \<open>exportForML\<close> (at any later reading \<open>now'\<close>, also after a
  \<open>getAllMetrics\<close>) gives a vector with the same fields in the same order and of the
  same size, and at the same reading gives the same vector.
\<close>

theorem exportForML_shape_idempotent:
  "map fst (fst (exportForML t now)) = canonical_fields
   \<and> distinct (map fst (fst (exportForML t now)))
   \<and> length (fst (exportForML t now)) = 10
   \<and> snd (exportForML t now) = t
   \<and> snd (getAllMetrics t now) = t
   \<and> map fst (fst (exportForML (snd (exportForML t now)) now')) = map fst (fst (exportForML t now))
   \<and> length (fst (exportForML (snd (exportForML t now)) now')) = length (fst (exportForML t now))
   \<and> exportForML (snd (getAllMetrics t now)) now' = exportForML t now'
   \<and> exportForML (snd (exportForML t now)) now = exportForML t now"
proof -
  have len: "length (fst (exportForML s n)) = 10" for s n
  proof -
    have "length (map fst (fst (exportForML s n))) = 10"
      unfolding exportForML_fields by (simp add: canonical_fields_distinct)
    then show ?thesis by simp
  qed
  have dist: "distinct (map fst (fst (exportForML t now)))"
    unfolding exportForML_fields by (simp add: canonical_fields_distinct)
  show ?thesis
    using dist by (simp add: exportForML_fields exportForML_state getAllMetrics_state len)
qed

theorem exportForML_shape_idempotent_witness:
  "map fst (fst (exportForML (trackClick (constructor 1000)) 2000)) = canonical_fields
   \<and> snd (exportForML (trackClick (constructor 1000)) 2000) = trackClick (constructor 1000)
   \<and> snd (getAllMetrics (trackClick (constructor 1000)) 2000) = trackClick (constructor 1000)
   \<and> map fst (fst (exportForML (snd (exportForML (trackClick (constructor 1000)) 2000)) 3000))
       = canonical_fields
   \<and> feature (exportForML (trackClick (constructor 1000)) 2000) ''total_clicks'' = Some (Num 1)
   \<and> feature (exportForML (trackClick (constructor 1000)) 2000) ''session_time_ms'' = Some (Num 1000)"
  using exportForML_shape_idempotent [of "trackClick (constructor 1000)" 2000 3000]
  by (simp add: feature_def exportForML_def getAllMetrics_def Let_def trackClick_def constructor_def
        getTotalClicks_def getSessionTime_def)

section \<open>Keystroke dynamics\<close>

lemma few_keydowns_Zero:
  "length (keydowns t) < 2 \<Longrightarrow> getKTPKeystrokeDynamics t = Zero"
  by (simp add: getKTPKeystrokeDynamics_def keydowns_def Let_def)

lemma enough_keydowns_length:
  "2 \<le> length (keydowns t) \<Longrightarrow> 2 \<le> length (ktpKeystrokeData t)"
proof -
  have "length (keydowns t) \<le> length (ktpKeystrokeData t)"
    unfolding keydowns_def by (rule length_filter_le)
  then show "2 \<le> length (keydowns t) \<Longrightarrow> 2 \<le> length (ktpKeystrokeData t)" by simp
qed

lemma enough_keydowns_paste:
  assumes "2 \<le> length (keydowns t)"
  shows "get_prop pasteDetected (getKTPKeystrokeDynamics t) = Some (pasted t)"
proof -
  from assms have "\<not> length (ktpKeystrokeData t) < 2"
    using enough_keydowns_length [of t] by simp
  moreover from assms have "\<not> length (filter (\<lambda>e. k_eventType e = ''keydown'') (ktpKeystrokeData t)) < 2"
    by (simp add: keydowns_def)
  ultimately show ?thesis
    by (simp add: getKTPKeystrokeDynamics_def Let_def pasted_def)
qed

lemma feature_paste:
  "feature (exportForML t now) ''ktp_paste_detected''
     = Some (case get_prop pasteDetected (getKTPKeystrokeDynamics t) of Some True \<Rightarrow> Num 1 | _ \<Rightarrow> Num 0)"
  by (simp add: feature_def exportForML_def getAllMetrics_def Let_def)

lemma feature_ktp:
  "feature (exportForML t now) ''ktp_avg_keystroke_interval_ms''
     = Some (or_0 (map_option Num (get_prop averageInterval (getKTPKeystrokeDynamics t))))"
  "feature (exportForML t now) ''ktp_keystroke_variance''
     = Some (or_0 (map_option Num (get_prop variance (getKTPKeystrokeDynamics t))))"
  "feature (exportForML t now) ''ktp_total_entry_time_ms''
     = Some (or_0 (map_option (\<lambda>d. Num (real_of_int d)) (get_prop totalTime (getKTPKeystrokeDynamics t))))"
  by (simp_all add: feature_def exportForML_def getAllMetrics_def Let_def)

lemma feature_paste_value:
  "feature (exportForML t now) ''ktp_paste_detected''
     = Some (if 2 \<le> length (keydowns t) \<and> pasted t then Num 1 else Num 0)"
proof (cases "2 \<le> length (keydowns t)")
  case True
  then show ?thesis by (simp add: feature_paste enough_keydowns_paste)
next
  case False
  then have "getKTPKeystrokeDynamics t = Zero" by (simp add: few_keydowns_Zero)
  with False show ?thesis by (simp add: feature_paste)
qed

text \<open>
  C7. In a session with fewer than 2 key-down events, the four exported keystroke
  fields are present and each is the number \<open>0\<close> (so none is \<open>NaN\<close> or
  \<open>undefined\<close>).
\<close>

theorem few_keydowns_defaults:
  assumes "length (keydowns t) < 2"
  shows "feature (exportForML t now) ''ktp_avg_keystroke_interval_ms'' = Some (Num 0)
       \<and> feature (exportForML t now) ''ktp_keystroke_variance'' = Some (Num 0)
       \<and> feature (exportForML t now) ''ktp_total_entry_time_ms'' = Some (Num 0)
       \<and> feature (exportForML t now) ''ktp_paste_detected'' = Some (Num 0)"
  using few_keydowns_Zero [OF assms] by (simp add: feature_ktp feature_paste)

theorem few_keydowns_defaults_witness:
  "length (keydowns (trackKTPKeystroke (constructor 1000) ''ktp'' ''keydown'' ''3'' 1200)) < 2
   \<and> feature (exportForML (trackKTPKeystroke (constructor 1000) ''ktp'' ''keydown'' ''3'' 1200) 2000)
        ''ktp_avg_keystroke_interval_ms'' = Some (Num 0)
   \<and> feature (exportForML (trackKTPKeystroke (constructor 1000) ''ktp'' ''keydown'' ''3'' 1200) 2000)
        ''ktp_keystroke_variance'' = Some (Num 0)
   \<and> feature (exportForML (trackKTPKeystroke (constructor 1000) ''ktp'' ''keydown'' ''3'' 1200) 2000)
        ''ktp_total_entry_time_ms'' = Some (Num 0)
   \<and> feature (exportForML (trackKTPKeystroke (constructor 1000) ''ktp'' ''keydown'' ''3'' 1200) 2000)
        ''ktp_paste_detected'' = Some (Num 0)"
proof -
  have few: "length (keydowns (trackKTPKeystroke (constructor 1000) ''ktp'' ''keydown'' ''3'' 1200)) < 2"
    by (simp add: keydowns_def trackKTPKeystroke_def constructor_def)
  from few_keydowns_defaults [OF few, of 2000] few show ?thesis by simp
qed

text \<open>
  C4, as amended. The exported \<open>ktp_paste_detected\<close> is \<open>1\<close> when at least one
  paste event was recorded and at least 2 key-down events were recorded; it is \<open>0\<close>
  when no paste event was recorded or fewer than 2 key-down events were.
\<close>

theorem paste_detected_needs_two_keydowns:
  "feature (exportForML t now) ''ktp_paste_detected''
     = Some (if 2 \<le> length (keydowns t) \<and> pasted t then Num 1 else Num 0)"
  by (rule feature_paste_value)

theorem paste_detected_needs_two_keydowns_witness:
  "feature (exportForML
      (trackKTPKeystroke (trackKTPKeystroke (trackKTPKeystroke (constructor 1000)
         ''ktp'' ''keydown'' ''3'' 1200) ''ktp'' ''paste'' ''3174'' 1300) ''ktp'' ''keydown'' ''31740'' 1400)
      2000) ''ktp_paste_detected'' = Some (Num 1)
   \<and> feature (exportForML
      (trackKTPKeystroke (trackKTPKeystroke (constructor 1000)
         ''ktp'' ''keydown'' ''3'' 1200) ''ktp'' ''paste'' ''3174'' 1300)
      2000) ''ktp_paste_detected'' = Some (Num 0)"
proof -
  let ?u = "trackKTPKeystroke (trackKTPKeystroke (constructor 1000)
         ''ktp'' ''keydown'' ''3'' 1200) ''ktp'' ''paste'' ''3174'' 1300"
  let ?t = "trackKTPKeystroke ?u ''ktp'' ''keydown'' ''31740'' 1400"
  have t: "length (keydowns ?t) = 2" "pasted ?t"
    by (simp_all add: keydowns_def pasted_def trackKTPKeystroke_def constructor_def)
  have u: "length (keydowns ?u) = 1"
    by (simp add: keydowns_def trackKTPKeystroke_def constructor_def)
  from paste_detected_needs_two_keydowns [of ?t 2000] paste_detected_needs_two_keydowns [of ?u 2000]
  show ?thesis by (simp only: t u) simp
qed

text \<open>
  The claim as first stated, \<open>1\<close> whenever a paste event was recorded and however
  many key-down events occurred, fails for a session in which the number was pasted and
  no key was pressed: a paste event is recorded, there is no key-down event, and the
  export is \<open>0\<close>, the default of a session with fewer than 2 key-down events.
\<close>

theorem paste_only_session_counterexample:
  "pasted (trackKTPKeystroke (constructor 1000) ''ktp'' ''paste'' ''3174012345678901'' 1500)
   \<and> keydowns (trackKTPKeystroke (constructor 1000) ''ktp'' ''paste'' ''3174012345678901'' 1500) = []
   \<and> feature (exportForML (trackKTPKeystroke (constructor 1000) ''ktp'' ''paste'' ''3174012345678901'' 1500) 2000)
        ''ktp_paste_detected'' = Some (Num 0)
   \<and> feature (exportForML (trackKTPKeystroke (constructor 1000) ''ktp'' ''paste'' ''3174012345678901'' 1500) 2000)
        ''ktp_paste_detected'' \<noteq> Some (Num 1)"
proof -
  have p: "pasted (trackKTPKeystroke (constructor 1000) ''ktp'' ''paste'' ''3174012345678901'' 1500)"
    by (simp add: pasted_def trackKTPKeystroke_def constructor_def)
  have k: "keydowns (trackKTPKeystroke (constructor 1000) ''ktp'' ''paste'' ''3174012345678901'' 1500) = []"
    by (simp add: keydowns_def trackKTPKeystroke_def constructor_def)
  have "feature (exportForML (trackKTPKeystroke (constructor 1000) ''ktp'' ''paste'' ''3174012345678901'' 1500) 2000)
        ''ktp_paste_detected'' = Some (Num 0)"
    unfolding feature_paste_value k by simp
  with p k show ?thesis by simp
qed

lemma index_deltas:
  "map (\<lambda>i. ts ! i - ts ! (i - 1)) [1 ..< length ts] = deltas ts"
proof (induction ts rule: deltas.induct)
  case (1 a b rest)
  let ?f = "\<lambda>i. (a # b # rest) ! i - (a # b # rest) ! (i - 1)"
  let ?g = "\<lambda>i. (b # rest) ! i - (b # rest) ! (i - 1)"
  have idx: "[1 ..< length (a # b # rest)] = 1 # map Suc [1 ..< length (b # rest)]"
    by (simp add: map_Suc_upt upt_conv_Cons del: upt_Suc)
  have shift: "map (?f \<circ> Suc) [1 ..< length (b # rest)] = map ?g [1 ..< length (b # rest)]"
    by (rule map_cong) (auto simp: nth_Cons split: nat.splits)
  have "map ?f [1 ..< length (a # b # rest)] = ?f 1 # map (?f \<circ> Suc) [1 ..< length (b # rest)]"
    by (simp only: idx list.map map_map)
  also have "\<dots> = (b - a) # map ?g [1 ..< length (b # rest)]"
    by (simp only: shift) simp
  also have "\<dots> = (b - a) # deltas (b # rest)"
    by (simp only: "1.IH")
  finally show ?case by simp
qed simp_all

lemma of_int_sum_list_real: "real_of_int (sum_list xs) = sum_list (map real_of_int xs)"
  by (induction xs) simp_all

lemma intervals_of_deltas: "intervals_of ks = deltas (map k_timestamp ks)"
proof -
  have "intervals_of ks = map (\<lambda>i. map k_timestamp ks ! i - map k_timestamp ks ! (i - 1)) [1 ..< length (map k_timestamp ks)]"
    unfolding intervals_of_def by (rule map_cong) auto
  then show ?thesis by (simp only: index_deltas)
qed

lemma foldl_sum: "foldl (\<lambda>s v. s + f v) a xs = a + sum_list (map f xs)"
  by (induction xs arbitrary: a) (simp_all add: add.assoc)

lemma length_deltas: "length (deltas ts) = length ts - 1"
  by (induction ts rule: deltas.induct) simp_all

lemma dynamics_enough:
  assumes "2 \<le> length (keydowns t)"
  shows "getKTPKeystrokeDynamics t =
     Obj \<lparr> averageInterval = mean (map real_of_int (deltas (map k_timestamp (keydowns t)))),
           variance = population_variance (map real_of_int (deltas (map k_timestamp (keydowns t)))),
           totalTime = last (map k_timestamp (keydowns t)) - hd (map k_timestamp (keydowns t)),
           pasteDetected = pasted t \<rparr>"
proof -
  let ?ks = "keydowns t"
  let ?ds = "deltas (map k_timestamp ?ks)"
  from assms have g1: "\<not> length (ktpKeystrokeData t) < 2"
    using enough_keydowns_length [of t] by simp
  from assms have g2: "\<not> length (filter (\<lambda>e. k_eventType e = ''keydown'') (ktpKeystrokeData t)) < 2"
    by (simp add: keydowns_def)
  from assms have ne: "?ks \<noteq> []" by auto
  have s1: "real_of_int (foldl (\<lambda>a b. a + b) 0 ?ds) = sum_list (map real_of_int ?ds)"
    using foldl_sum [of "\<lambda>v. v" 0 ?ds] by (simp add: of_int_sum_list_real)
  have avg: "real_of_int (foldl (\<lambda>a b. a + b) 0 ?ds) / real (length ?ds) = mean (map real_of_int ?ds)"
    by (simp add: s1 mean_def)
  have var: "foldl (\<lambda>sum val. sum + (real_of_int val - mean (map real_of_int ?ds)) ^ 2) 0 ?ds / real (length ?ds)
               = population_variance (map real_of_int ?ds)"
    by (simp add: foldl_sum population_variance_def mean_def comp_def)
  have tot: "k_timestamp (?ks ! (length ?ks - 1)) - k_timestamp (?ks ! 0)
               = last (map k_timestamp ?ks) - hd (map k_timestamp ?ks)"
    using ne by (simp add: last_conv_nth hd_conv_nth last_map hd_map)
  have "getKTPKeystrokeDynamics t =
     Obj \<lparr> averageInterval = real_of_int (foldl (\<lambda>a b. a + b) 0 ?ds) / real (length ?ds),
           variance = foldl (\<lambda>sum val. sum + (real_of_int val - real_of_int (foldl (\<lambda>a b. a + b) 0 ?ds) / real (length ?ds)) ^ 2) 0 ?ds / real (length ?ds),
           totalTime = k_timestamp (?ks ! (length ?ks - 1)) - k_timestamp (?ks ! 0),
           pasteDetected = pasted t \<rparr>"
    using g1 g2
    by (simp add: getKTPKeystrokeDynamics_def Let_def intervals_of_deltas keydowns_def pasted_def)
  then show ?thesis by (simp only: avg var tot)
qed

text \<open>
  C8. When the key-down events of a session have the timestamps \<open>b\<close>, \<open>b + 10\<close>,
  \<open>b + 20\<close>, \<open>b + 30\<close> (whatever \<open>b\<close> is, and whatever other events lie between
  them), \<open>getKTPKeystrokeDynamics\<close> returns an object with \<open>averageInterval = 10\<close>,
  \<open>variance = 0\<close> and \<open>totalTime = 30\<close>. In every session \<open>s\<close> with at least 2
  key-down events the average is the mean of the intervals and the variance is their
  population variance: the sum of squared deviations is divided by the number of
  intervals.
\<close>

theorem evenly_spaced_keystrokes:
  assumes "map k_timestamp (keydowns t) = [b, b + 10, b + 20, b + 30]"
  shows "get_prop averageInterval (getKTPKeystrokeDynamics t) = Some 10
       \<and> get_prop variance (getKTPKeystrokeDynamics t) = Some 0
       \<and> get_prop totalTime (getKTPKeystrokeDynamics t) = Some 30
       \<and> (2 \<le> length (keydowns s) \<longrightarrow>
            get_prop averageInterval (getKTPKeystrokeDynamics s)
              = Some (mean (map real_of_int (deltas (map k_timestamp (keydowns s)))))
            \<and> get_prop variance (getKTPKeystrokeDynamics s)
              = Some (population_variance (map real_of_int (deltas (map k_timestamp (keydowns s)))))
            \<and> length (deltas (map k_timestamp (keydowns s))) = length (keydowns s) - 1)"
proof -
  from assms have "length (map k_timestamp (keydowns t)) = 4" by simp
  then have enough: "2 \<le> length (keydowns t)" by simp
  have spaced: "get_prop averageInterval (getKTPKeystrokeDynamics t) = Some 10
       \<and> get_prop variance (getKTPKeystrokeDynamics t) = Some 0
       \<and> get_prop totalTime (getKTPKeystrokeDynamics t) = Some 30"
    by (simp add: dynamics_enough [OF enough] assms mean_def population_variance_def)
  have general: "get_prop averageInterval (getKTPKeystrokeDynamics s)
              = Some (mean (map real_of_int (deltas (map k_timestamp (keydowns s)))))
            \<and> get_prop variance (getKTPKeystrokeDynamics s)
              = Some (population_variance (map real_of_int (deltas (map k_timestamp (keydowns s)))))
            \<and> length (deltas (map k_timestamp (keydowns s))) = length (keydowns s) - 1"
    if "2 \<le> length (keydowns s)"
    by (simp add: dynamics_enough [OF that] length_deltas)
  from spaced general show ?thesis by blast
qed

theorem evenly_spaced_keystrokes_witness:
  "map k_timestamp (keydowns
     (trackKTPKeystroke (trackKTPKeystroke (trackKTPKeystroke (trackKTPKeystroke
        (trackKTPKeystroke (trackKTPKeystroke (constructor 900)
           ''ktp'' ''keydown'' ''3'' 1000) ''ktp'' ''keyup'' ''3'' 1004)
           ''ktp'' ''keydown'' ''31'' 1010) ''ktp'' ''keydown'' ''317'' 1020)
           ''ktp'' ''paste'' ''3174'' 1026) ''ktp'' ''keydown'' ''31740'' 1030))
     = [1000, 1000 + 10, 1000 + 20, 1000 + 30]
   \<and> get_prop averageInterval (getKTPKeystrokeDynamics
     (trackKTPKeystroke (trackKTPKeystroke (trackKTPKeystroke (trackKTPKeystroke
        (trackKTPKeystroke (trackKTPKeystroke (constructor 900)
           ''ktp'' ''keydown'' ''3'' 1000) ''ktp'' ''keyup'' ''3'' 1004)
           ''ktp'' ''keydown'' ''31'' 1010) ''ktp'' ''keydown'' ''317'' 1020)
           ''ktp'' ''paste'' ''3174'' 1026) ''ktp'' ''keydown'' ''31740'' 1030)) = Some 10
   \<and> 2 \<le> length (keydowns
     (trackKTPKeystroke (trackKTPKeystroke (trackKTPKeystroke (constructor 0)
           ''ktp'' ''keydown'' ''3'' 0) ''ktp'' ''keydown'' ''31'' 10) ''ktp'' ''keydown'' ''317'' 30))
   \<and> get_prop variance (getKTPKeystrokeDynamics
     (trackKTPKeystroke (trackKTPKeystroke (trackKTPKeystroke (constructor 0)
           ''ktp'' ''keydown'' ''3'' 0) ''ktp'' ''keydown'' ''31'' 10) ''ktp'' ''keydown'' ''317'' 30))
     = Some 25"
proof -
  let ?t = "trackKTPKeystroke (trackKTPKeystroke (trackKTPKeystroke (trackKTPKeystroke
        (trackKTPKeystroke (trackKTPKeystroke (constructor 900)
           ''ktp'' ''keydown'' ''3'' 1000) ''ktp'' ''keyup'' ''3'' 1004)
           ''ktp'' ''keydown'' ''31'' 1010) ''ktp'' ''keydown'' ''317'' 1020)
           ''ktp'' ''paste'' ''3174'' 1026) ''ktp'' ''keydown'' ''31740'' 1030"
  let ?s = "trackKTPKeystroke (trackKTPKeystroke (trackKTPKeystroke (constructor 0)
           ''ktp'' ''keydown'' ''3'' 0) ''ktp'' ''keydown'' ''31'' 10) ''ktp'' ''keydown'' ''317'' 30"
  have ht: "map k_timestamp (keydowns ?t) = [1000, 1000 + 10, 1000 + 20, 1000 + 30]"
    by (simp add: keydowns_def trackKTPKeystroke_def constructor_def)
  have ks: "map k_timestamp (keydowns ?s) = [0, 10, 30]"
    by (simp add: keydowns_def trackKTPKeystroke_def constructor_def)
  have hs: "2 \<le> length (keydowns ?s)"
    by (simp add: keydowns_def trackKTPKeystroke_def constructor_def)
  from evenly_spaced_keystrokes [OF ht, of ?s] hs
  have "get_prop averageInterval (getKTPKeystrokeDynamics ?t) = Some 10"
    and "get_prop variance (getKTPKeystrokeDynamics ?s)
           = Some (population_variance (map real_of_int (deltas (map k_timestamp (keydowns ?s)))))"
    by simp_all
  moreover have "population_variance (map real_of_int (deltas [0, 10, 30])) = 25"
    by (simp add: population_variance_def mean_def)
  ultimately show ?thesis using ht hs by (simp only: ks)
qed

section \<open>The ingestion endpoint\<close>

lemma map_of_filter_key:
  "map_of (filter (\<lambda>kv. fst kv \<noteq> f) xs) k = (if k = f then None else map_of xs k)"
  by (induction xs) auto

lemma field_without: "field (filter (\<lambda>kv. fst kv \<noteq> f) kvs) k = (if k = f then None else field kvs k)"
  by (simp add: field_def rev_filter map_of_filter_key)

lemma field_supplied: "field (kvs @ [(f, v)]) k = (if k = f then Some v else field kvs k)"
  by (simp add: field_def)

lemma POST_object:
  assumes "truthy_json (field body ''user_id'')"
  shows "POST (Parsed (JObj body)) db =
     (case db (stored_row body) of
        DbThrows \<Rightarrow> \<lparr> r_status = 500, r_success = False, r_error = Some ''server_error'', r_data = None \<rparr>
      | DbError message \<Rightarrow> \<lparr> r_status = 500, r_success = False, r_error = Some message, r_data = None \<rparr>
      | DbData data \<Rightarrow> \<lparr> r_status = 200, r_success = True, r_error = None, r_data = Some data \<rparr>)"
  using assms by (simp add: POST_def stored_row_def Let_def)

lemma rest_field:
  "k \<noteq> ''user_id'' \<Longrightarrow> field (filter (\<lambda>kv. fst kv \<noteq> ''user_id'') body) k = field body k"
  by (simp add: field_without)

lemma stored_row_null_columns:
  "map_of (stored_row body) ''ktp_avg_keystroke_interval_ms''
     = Some (js_or (field body ''ktp_avg_keystroke_interval_ms'') JNull)"
  "map_of (stored_row body) ''ktp_keystroke_variance''
     = Some (js_or (field body ''ktp_keystroke_variance'') JNull)"
  "map_of (stored_row body) ''ktp_total_entry_time_ms''
     = Some (js_or (field body ''ktp_total_entry_time_ms'') JNull)"
  "map_of (stored_row body) ''mouse_total_distance''
     = Some (js_or (field body ''mouse_total_distance'') JNull)"
  "map_of (stored_row body) ''mouse_smoothness''
     = Some (js_or (field body ''mouse_smoothness'') JNull)"
  by (simp_all add: stored_row_def insert_row_def rest_field)

lemma stored_row_zero_columns:
  "map_of (stored_row body) ''session_time_ms''
     = Some (js_or (field body ''session_time_ms'') (JNum 0))"
  "map_of (stored_row body) ''seat_hesitation_time_ms''
     = Some (js_or (field body ''seat_hesitation_time_ms'') (JNum 0))"
  "map_of (stored_row body) ''ktp_paste_detected''
     = Some (js_or (field body ''ktp_paste_detected'') (JNum 0))"
  "map_of (stored_row body) ''field_edit_count''
     = Some (js_or (field body ''field_edit_count'') (JNum 0))"
  "map_of (stored_row body) ''total_clicks''
     = Some (js_or (field body ''total_clicks'') (JNum 0))"
  by (simp_all add: stored_row_def insert_row_def rest_field)

lemma null_default_column:
  assumes "f \<in> set null_default_fields"
  shows "map_of (stored_row body) f = Some (js_or (field body f) JNull)"
proof -
  from assms have "f = ''ktp_avg_keystroke_interval_ms'' \<or> f = ''ktp_keystroke_variance''
      \<or> f = ''ktp_total_entry_time_ms'' \<or> f = ''mouse_total_distance'' \<or> f = ''mouse_smoothness''"
    unfolding null_default_fields_def by simp
  then show ?thesis
  proof (elim disjE)
    assume a: "f = ''ktp_avg_keystroke_interval_ms''"
    show ?thesis unfolding a by (rule stored_row_null_columns(1))
  next
    assume a: "f = ''ktp_keystroke_variance''"
    show ?thesis unfolding a by (rule stored_row_null_columns(2))
  next
    assume a: "f = ''ktp_total_entry_time_ms''"
    show ?thesis unfolding a by (rule stored_row_null_columns(3))
  next
    assume a: "f = ''mouse_total_distance''"
    show ?thesis unfolding a by (rule stored_row_null_columns(4))
  next
    assume a: "f = ''mouse_smoothness''"
    show ?thesis unfolding a by (rule stored_row_null_columns(5))
  qed
qed

lemma zero_default_column:
  assumes "g \<in> set zero_default_fields"
  shows "map_of (stored_row body) g = Some (js_or (field body g) (JNum 0))"
proof -
  from assms have "g = ''session_time_ms'' \<or> g = ''seat_hesitation_time_ms''
      \<or> g = ''ktp_paste_detected'' \<or> g = ''field_edit_count'' \<or> g = ''total_clicks''"
    unfolding zero_default_fields_def by simp
  then show ?thesis
  proof (elim disjE)
    assume a: "g = ''session_time_ms''"
    show ?thesis unfolding a by (rule stored_row_zero_columns(1))
  next
    assume a: "g = ''seat_hesitation_time_ms''"
    show ?thesis unfolding a by (rule stored_row_zero_columns(2))
  next
    assume a: "g = ''ktp_paste_detected''"
    show ?thesis unfolding a by (rule stored_row_zero_columns(3))
  next
    assume a: "g = ''field_edit_count''"
    show ?thesis unfolding a by (rule stored_row_zero_columns(4))
  next
    assume a: "g = ''total_clicks''"
    show ?thesis unfolding a by (rule stored_row_zero_columns(5))
  qed
qed

lemma null_default_falsy:
  assumes "f \<in> set null_default_fields" "\<not> truthy_json (field body f)"
  shows "map_of (stored_row body) f = Some JNull"
  using assms(2) by (simp add: null_default_column [OF assms(1)] js_or_def)

lemma zero_default_falsy:
  assumes "g \<in> set zero_default_fields" "\<not> truthy_json (field body g)"
  shows "map_of (stored_row body) g = Some (JNum 0)"
  using assms(2) by (simp add: zero_default_column [OF assms(1)] js_or_def)

lemma zero_like_absent:
  assumes "f \<in> set null_default_fields"
  shows "stored_row (body @ [(f, JNum 0)]) = stored_row (filter (\<lambda>kv. fst kv \<noteq> f) body)"
proof -
  from assms have ne: "f \<noteq> ''user_id''" by (auto simp: null_default_fields_def)
  have uid: "field (body @ [(f, JNum 0)]) ''user_id'' = field (filter (\<lambda>kv. fst kv \<noteq> f) body) ''user_id''"
    using ne by (simp add: field_supplied field_without)
  have supplied: "field (filter (\<lambda>kv. fst kv \<noteq> ''user_id'') (body @ [(f, JNum 0)])) c
            = (if c = ''user_id'' then None else if c = f then Some (JNum 0) else field body c)" for c
    using ne by (simp add: field_supplied field_without)
  have absent: "field (filter (\<lambda>kv. fst kv \<noteq> ''user_id'') (filter (\<lambda>kv. fst kv \<noteq> f) body)) c
            = (if c = ''user_id'' then None else if c = f then None else field body c)" for c
    by (simp add: field_without del: filter_filter)
  have other: "js_or (field (filter (\<lambda>kv. fst kv \<noteq> ''user_id'') (body @ [(f, JNum 0)])) c) d
            = js_or (field (filter (\<lambda>kv. fst kv \<noteq> ''user_id'') (filter (\<lambda>kv. fst kv \<noteq> f) body)) c) d"
    if "c \<noteq> f" for c d
    using that unfolding supplied absent by (simp add: js_or_def)
  have null: "js_or (field (filter (\<lambda>kv. fst kv \<noteq> ''user_id'') (body @ [(f, JNum 0)])) c) JNull
            = js_or (field (filter (\<lambda>kv. fst kv \<noteq> ''user_id'') (filter (\<lambda>kv. fst kv \<noteq> f) body)) c) JNull" for c
    unfolding supplied absent by (simp add: js_or_def)
  from assms have nz: "''session_time_ms'' \<noteq> f" "''seat_hesitation_time_ms'' \<noteq> f"
      "''ktp_paste_detected'' \<noteq> f" "''field_edit_count'' \<noteq> f" "''total_clicks'' \<noteq> f"
    by (auto simp: null_default_fields_def)
  show ?thesis
    unfolding stored_row_def insert_row_def uid
    by (simp only: null other [OF nz(1)] other [OF nz(2)] other [OF nz(3)] other [OF nz(4)] other [OF nz(5)])
qed

text \<open>
  C10. For a POST whose body is an object with a truthy \<open>user_id\<close>, and for every
  database client \<open>db\<close>, the endpoint hands the row \<open>stored_row body\<close> to \<open>insert\<close>
  and answers by what \<open>db\<close> does with that row: 500 when it throws or returns an
  error, 200 with the returned data otherwise; so a database that answers with the
  inserted row makes the endpoint answer 200 with that row. In this row, each of the five
  fields \<open>f\<close> with default \<open>null\<close> that is supplied as \<open>0\<close>, or as any falsy value, or
  not at all, is \<open>null\<close>; each of the other five numeric fields \<open>g\<close> that is falsy or
  absent is \<open>0\<close>. A body that supplies \<open>f: 0\<close> gives the very row that the same body
  without \<open>f\<close> gives.
\<close>

theorem zero_stored_as_null:
  assumes "truthy_json (field body ''user_id'')"
    and "f \<in> set null_default_fields"
    and "g \<in> set zero_default_fields"
  shows "POST (Parsed (JObj body)) db =
           (case db (stored_row body) of
              DbThrows \<Rightarrow>
                \<lparr> r_status = 500, r_success = False, r_error = Some ''server_error'', r_data = None \<rparr>
            | DbError message \<Rightarrow>
                \<lparr> r_status = 500, r_success = False, r_error = Some message, r_data = None \<rparr>
            | DbData data \<Rightarrow>
                \<lparr> r_status = 200, r_success = True, r_error = None, r_data = Some data \<rparr>)
    \<and> POST (Parsed (JObj body)) (\<lambda>row. DbData (JArr [JObj row]))
           = \<lparr> r_status = 200, r_success = True, r_error = None,
               r_data = Some (JArr [JObj (stored_row body)]) \<rparr>
    \<and> (field body f = Some (JNum 0) \<longrightarrow> map_of (stored_row body) f = Some JNull)
    \<and> (\<not> truthy_json (field body f) \<longrightarrow> map_of (stored_row body) f = Some JNull)
    \<and> (\<not> truthy_json (field body g) \<longrightarrow> map_of (stored_row body) g = Some (JNum 0))
    \<and> stored_row (body @ [(f, JNum 0)]) = stored_row (filter (\<lambda>kv. fst kv \<noteq> f) body)"
proof -
  have answer: "POST (Parsed (JObj body)) (\<lambda>row. DbData (JArr [JObj row]))
           = \<lparr> r_status = 200, r_success = True, r_error = None,
               r_data = Some (JArr [JObj (stored_row body)]) \<rparr>"
    by (simp add: POST_object [OF assms(1)])
  have zero: "map_of (stored_row body) f = Some JNull" if "field body f = Some (JNum 0)"
    using null_default_falsy [OF assms(2), of body] that by simp
  have falsy: "map_of (stored_row body) f = Some JNull" if "\<not> truthy_json (field body f)"
    using assms(2) that by (rule null_default_falsy)
  have other: "map_of (stored_row body) g = Some (JNum 0)" if "\<not> truthy_json (field body g)"
    using assms(3) that by (rule zero_default_falsy)
  have same: "stored_row (body @ [(f, JNum 0)]) = stored_row (filter (\<lambda>kv. fst kv \<noteq> f) body)"
    using assms(2) by (rule zero_like_absent)
  have handed: "POST (Parsed (JObj body)) db =
           (case db (stored_row body) of
              DbThrows \<Rightarrow>
                \<lparr> r_status = 500, r_success = False, r_error = Some ''server_error'', r_data = None \<rparr>
            | DbError message \<Rightarrow>
                \<lparr> r_status = 500, r_success = False, r_error = Some message, r_data = None \<rparr>
            | DbData data \<Rightarrow>
                \<lparr> r_status = 200, r_success = True, r_error = None, r_data = Some data \<rparr>)"
    using assms(1) by (rule POST_object)
  from zero falsy other have cols:
    "(field body f = Some (JNum 0) \<longrightarrow> map_of (stored_row body) f = Some JNull)
     \<and> (\<not> truthy_json (field body f) \<longrightarrow> map_of (stored_row body) f = Some JNull)
     \<and> (\<not> truthy_json (field body g) \<longrightarrow> map_of (stored_row body) g = Some (JNum 0))"
    by blast
  from handed answer cols same show ?thesis by blast
qed

theorem zero_stored_as_null_witness:
  "truthy_json (field [(''user_id'', JStr ''u1''), (''ktp_keystroke_variance'', JNum 0),
                       (''total_clicks'', JNum 0), (''session_time_ms'', JNum 4200)] ''user_id'')
   \<and> ''ktp_keystroke_variance'' \<in> set null_default_fields
   \<and> ''total_clicks'' \<in> set zero_default_fields
   \<and> field [(''user_id'', JStr ''u1''), (''ktp_keystroke_variance'', JNum 0),
             (''total_clicks'', JNum 0), (''session_time_ms'', JNum 4200)] ''ktp_keystroke_variance''
        = Some (JNum 0)
   \<and> \<not> truthy_json (field [(''user_id'', JStr ''u1''), (''ktp_keystroke_variance'', JNum 0),
             (''total_clicks'', JNum 0), (''session_time_ms'', JNum 4200)] ''total_clicks'')
   \<and> map_of (stored_row [(''user_id'', JStr ''u1''), (''ktp_keystroke_variance'', JNum 0),
             (''total_clicks'', JNum 0), (''session_time_ms'', JNum 4200)]) ''ktp_keystroke_variance''
        = Some JNull
   \<and> map_of (stored_row [(''user_id'', JStr ''u1''), (''ktp_keystroke_variance'', JNum 0),
             (''total_clicks'', JNum 0), (''session_time_ms'', JNum 4200)]) ''total_clicks''
        = Some (JNum 0)
   \<and> POST (Parsed (JObj [(''user_id'', JStr ''u1''), (''ktp_keystroke_variance'', JNum 0),
             (''total_clicks'', JNum 0), (''session_time_ms'', JNum 4200)]))
          (\<lambda>row. if map_of row ''ktp_keystroke_variance'' = Some JNull
                 then DbData (JStr ''stored'') else DbError ''rejected'')
        = \<lparr> r_status = 200, r_success = True, r_error = None, r_data = Some (JStr ''stored'') \<rparr>
   \<and> POST (Parsed (JObj [(''user_id'', JStr ''u1''), (''ktp_keystroke_variance'', JNum 0),
             (''total_clicks'', JNum 0), (''session_time_ms'', JNum 4200)]))
          (\<lambda>row. if map_of row ''ktp_keystroke_variance'' = Some (JNum 0)
                 then DbData (JStr ''stored'') else DbError ''rejected'')
        = \<lparr> r_status = 500, r_success = False, r_error = Some ''rejected'', r_data = None \<rparr>"
proof -
  let ?body = "[(''user_id'', JStr ''u1''), (''ktp_keystroke_variance'', JNum 0),
                (''total_clicks'', JNum 0), (''session_time_ms'', JNum 4200)]"
  let ?wants_null = "\<lambda>row. if map_of row ''ktp_keystroke_variance'' = Some JNull
                 then DbData (JStr ''stored'') else DbError ''rejected''"
  let ?wants_zero = "\<lambda>row. if map_of row ''ktp_keystroke_variance'' = Some (JNum 0)
                 then DbData (JStr ''stored'') else DbError ''rejected''"
  have u: "truthy_json (field ?body ''user_id'')" by (simp add: field_def)
  have f: "''ktp_keystroke_variance'' \<in> set null_default_fields"
    by (simp add: null_default_fields_def)
  have g: "''total_clicks'' \<in> set zero_default_fields"
    by (simp add: zero_default_fields_def)
  have zf: "field ?body ''ktp_keystroke_variance'' = Some (JNum 0)" by (simp add: field_def)
  have zg: "\<not> truthy_json (field ?body ''total_clicks'')" by (simp add: field_def)
  from zero_stored_as_null [OF u f g, of ?wants_null] zf zg
  have cols: "map_of (stored_row ?body) ''ktp_keystroke_variance'' = Some JNull"
       "map_of (stored_row ?body) ''total_clicks'' = Some (JNum 0)"
    and null: "POST (Parsed (JObj ?body)) ?wants_null
        = (case ?wants_null (stored_row ?body) of
              DbThrows \<Rightarrow>
                \<lparr> r_status = 500, r_success = False, r_error = Some ''server_error'', r_data = None \<rparr>
            | DbError message \<Rightarrow>
                \<lparr> r_status = 500, r_success = False, r_error = Some message, r_data = None \<rparr>
            | DbData data \<Rightarrow>
                \<lparr> r_status = 200, r_success = True, r_error = None, r_data = Some data \<rparr>)"
    by blast+
  from zero_stored_as_null [OF u f g, of ?wants_zero]
  have zero: "POST (Parsed (JObj ?body)) ?wants_zero
        = (case ?wants_zero (stored_row ?body) of
              DbThrows \<Rightarrow>
                \<lparr> r_status = 500, r_success = False, r_error = Some ''server_error'', r_data = None \<rparr>
            | DbError message \<Rightarrow>
                \<lparr> r_status = 500, r_success = False, r_error = Some message, r_data = None \<rparr>
            | DbData data \<Rightarrow>
                \<lparr> r_status = 200, r_success = True, r_error = None, r_data = Some data \<rparr>)"
    by blast
  have a: "POST (Parsed (JObj ?body)) ?wants_null
        = \<lparr> r_status = 200, r_success = True, r_error = None, r_data = Some (JStr ''stored'') \<rparr>"
    unfolding null by (simp only: cols) simp
  have b: "POST (Parsed (JObj ?body)) ?wants_zero
        = \<lparr> r_status = 500, r_success = False, r_error = Some ''rejected'', r_data = None \<rparr>"
    unfolding zero by (simp only: cols) simp
  from u f g zf zg cols a b show ?thesis by (intro conjI)
qed

section \<open>Mouse movement entropy\<close>

lemma feature_mouse:
  "feature (exportForML t now) ''mouse_total_distance''
     = Some (or_0 (map_option Num (get_prop totalDistance (getMouseMovementEntropy t))))"
  "feature (exportForML t now) ''mouse_smoothness''
     = Some (or_0 (get_prop smoothness (getMouseMovementEntropy t)))"
  by (simp_all add: feature_def exportForML_def getAllMetrics_def Let_def)

lemma few_samples_Zero: "length (mousePositions t) < 2 \<Longrightarrow> getMouseMovementEntropy t = Zero"
  by (simp add: getMouseMovementEntropy_def Let_def)

lemma two_samples_entropy:
  assumes "mousePositions t = [p, q]"
  shows "getMouseMovementEntropy t
           = Obj \<lparr> totalDistance = distance p q, averageAngleChange = NaN, smoothness = NaN \<rparr>"
proof -
  have idx: "[1 ..< length [p, q]] = [1]" by (simp add: upt_rec)
  have "foldl (mouse_step [p, q]) (0, 0) [1 ..< length [p, q]] = (distance p q, 0)"
    unfolding idx by (simp add: mouse_step_def Let_def)
  then show ?thesis
    by (simp add: getMouseMovementEntropy_def Let_def assms js_div_def)
qed

lemma distance_3_4: "distance (sample (0, 0, 10)) (sample (3, 4, 20)) = 5"
proof -
  have "sqrt 25 = 5" by (rule real_sqrt_unique) simp_all
  then show ?thesis by (simp add: distance_def sample_def)
qed

text \<open>
  C5. With fewer than 2 retained pointer samples (\<open>s\<close>) \<open>getMouseMovementEntropy\<close>
  returns the number \<open>0\<close> and both exported mouse features are \<open>0\<close>. With exactly
  2 retained samples (\<open>t\<close>) it returns an object whose \<open>totalDistance\<close> is the
  Euclidean distance of the two samples and whose \<open>smoothness\<close> is \<open>NaN\<close>, the
  quotient of \<open>0\<close> by \<open>length - 2 = 0\<close>; only \<open>exportForML\<close> turns that \<open>NaN\<close>
  into \<open>0\<close>.
\<close>

theorem two_samples_smoothness_NaN:
  assumes "mousePositions t = [p, q]"
    and "length (mousePositions s) < 2"
  shows "get_prop smoothness (getMouseMovementEntropy t) = Some NaN
       \<and> get_prop averageAngleChange (getMouseMovementEntropy t) = Some NaN
       \<and> get_prop totalDistance (getMouseMovementEntropy t) = Some (distance p q)
       \<and> feature (exportForML t now) ''mouse_smoothness'' = Some (Num 0)
       \<and> feature (exportForML t now) ''mouse_total_distance'' = Some (Num (distance p q))
       \<and> getMouseMovementEntropy s = Zero
       \<and> feature (exportForML s now) ''mouse_smoothness'' = Some (Num 0)
       \<and> feature (exportForML s now) ''mouse_total_distance'' = Some (Num 0)"
  by (simp add: two_samples_entropy [OF assms(1)] few_samples_Zero [OF assms(2)] feature_mouse)

theorem two_samples_smoothness_NaN_witness:
  "mousePositions (trackMouseMovement (trackMouseMovement (constructor 0) 0 0 10) 3 4 20)
     = [sample (0, 0, 10), sample (3, 4, 20)]
   \<and> length (mousePositions (constructor 0)) < 2
   \<and> getMouseMovementEntropy (trackMouseMovement (trackMouseMovement (constructor 0) 0 0 10) 3 4 20)
       = Obj \<lparr> totalDistance = 5, averageAngleChange = NaN, smoothness = NaN \<rparr>
   \<and> get_prop smoothness
        (getMouseMovementEntropy (trackMouseMovement (trackMouseMovement (constructor 0) 0 0 10) 3 4 20))
       = Some NaN
   \<and> feature (exportForML (trackMouseMovement (trackMouseMovement (constructor 0) 0 0 10) 3 4 20) 30)
        ''mouse_total_distance'' = Some (Num 5)
   \<and> getMouseMovementEntropy (constructor 0) = Zero"
proof -
  let ?t = "trackMouseMovement (trackMouseMovement (constructor 0) 0 0 10) 3 4 20"
  have two: "mousePositions ?t = [sample (0, 0, 10), sample (3, 4, 20)]"
    by (simp add: trackMouseMovement_def constructor_def sample_def Let_def)
  have none: "length (mousePositions (constructor 0)) < 2"
    by (simp add: constructor_def)
  have obj: "getMouseMovementEntropy ?t
       = Obj \<lparr> totalDistance = 5, averageAngleChange = NaN, smoothness = NaN \<rparr>"
    using two_samples_entropy [OF two] by (simp only: distance_3_4)
  from two_samples_smoothness_NaN [OF two none, of 30] two none obj show ?thesis
    by (simp add: distance_3_4)
qed

end
